theory Spec2Isabelle
  imports Complex_Main
begin

section \<open>Record model (prediction.py)\<close>

text \<open>
  Conventions of the embedding.
  \<^item> A Python \<open>float\<close> is a real number: binary rounding is not modelled. The one
    non-finite value the code produces itself, \<open>float("inf")\<close>, has its own constructor in
    the type \<open>distance\<close> below.
  \<^item> A naive \<open>datetime\<close> is the number of seconds since the start of the day with
    proleptic Gregorian ordinal 0 (so 0001-01-01T00:00:00 is 86400); a \<open>timedelta\<close> is a
    number of seconds. Both are reals: the rounding of \<open>timedelta(hours=x)\<close> to whole
    microseconds is not modelled.
  \<^item> A Python \<open>str\<close> is a \<open>string\<close> whose characters are the code points below 256.
  \<^item> Every \<open>raise\<close> is a value \<open>Inl e\<close> of a sum type.
\<close>

datatype error =
    ParseError
  | ValueError string
  | OverflowError
  | ZeroDivisionError

type_synonym datetime = real
type_synonym timedelta = real

definition total_seconds :: "timedelta \<Rightarrow> real" where
  "total_seconds d = d"

definition timedelta_hours :: "real \<Rightarrow> timedelta" where
  "timedelta_hours h = h * 3600"

datatype PredictionType =
  GRAVITATIONAL_WAVE | GAMMA_RAY | SOLAR_FLARE | TECTONIC | BLACK_HOLE | TSUNAMI

datatype PredictionStatus = PENDING | VALIDATED | INVALIDATED | EXPIRED

record SkyLocation =
  right_ascension :: real
  declination :: real
  uncertainty_radius :: real

record WaveParameters =
  frequency_hz :: real
  amplitude :: real
  chirp_mass :: "real option"
  distance_mpc :: "real option"
  snr :: "real option"

record Prediction =
  id' :: string
  prediction_type :: PredictionType
  created_at :: datetime
  predicted_event_start :: datetime
  predicted_event_end :: datetime
  framework :: string
  confidence :: real
  description :: string
  sky_location :: "SkyLocation option"
  wave_parameters :: "WaveParameters option"
  status :: PredictionStatus
  sha256_hash :: "string option"
  matched_event_id :: "string option"
  tags :: "string list"

text \<open>The three \<open>__post_init__\<close> checks, in the order of the source.\<close>

definition SkyLocation_post_init :: "SkyLocation \<Rightarrow> error + SkyLocation" where
  "SkyLocation_post_init s =
     (if \<not> (0 \<le> right_ascension s \<and> right_ascension s \<le> 360)
        then Inl (ValueError ''Right ascension must be between 0 and 360'')
      else if \<not> (- 90 \<le> declination s \<and> declination s \<le> 90)
        then Inl (ValueError ''Declination must be between -90 and 90'')
      else if uncertainty_radius s < 0
        then Inl (ValueError ''Uncertainty radius cannot be negative'')
      else Inr s)"

definition WaveParameters_post_init :: "WaveParameters \<Rightarrow> error + WaveParameters" where
  "WaveParameters_post_init w =
     (if frequency_hz w \<le> 0 then Inl (ValueError ''Frequency must be positive'')
      else if amplitude w \<le> 0 then Inl (ValueError ''Amplitude must be positive'')
      else Inr w)"

definition valid_frameworks :: "string list" where
  "valid_frameworks = [''CIA'', ''SIA'', ''HIA'', ''IIA'', ''Experimental'']"

definition Prediction_post_init :: "Prediction \<Rightarrow> error + Prediction" where
  "Prediction_post_init p =
     (if \<not> (0 \<le> confidence p \<and> confidence p \<le> 1)
        then Inl (ValueError ''Confidence must be between 0 and 1'')
      else if predicted_event_end p < predicted_event_start p
        then Inl (ValueError ''Event end time cannot be before start time'')
      else if framework p \<notin> set valid_frameworks
        then Inl (ValueError ''Framework must be one of'')
      else Inr p)"

definition is_within_window :: "Prediction \<Rightarrow> datetime \<Rightarrow> bool" where
  "is_within_window p event_time \<longleftrightarrow>
     predicted_event_start p \<le> event_time \<and> event_time \<le> predicted_event_end p"

definition time_window_hours :: "Prediction \<Rightarrow> real" where
  "time_window_hours p =
     (let delta = predicted_event_end p - predicted_event_start p
      in total_seconds delta / 3600)"

definition mark_validated :: "Prediction \<Rightarrow> string \<Rightarrow> Prediction" where
  "mark_validated p event_id = p\<lparr>status := VALIDATED, matched_event_id := Some event_id\<rparr>"

definition mark_invalidated :: "Prediction \<Rightarrow> Prediction" where
  "mark_invalidated p = p\<lparr>status := INVALIDATED\<rparr>"

section \<open>Hash of a prediction (validator.py, HashVerifier)\<close>

text \<open>
  \<open>hashable_data\<close> is the dictionary the source builds; a dictionary is an association
  list in insertion order. The three library functions the digest goes through are
  parameters: \<open>isoformat\<close> (\<open>datetime.isoformat\<close>), \<open>dumps\<close>
  (\<open>json.dumps\<close> with sorted keys and compact separators) and \<open>sha256\<close>
  (\<open>hashlib.sha256\<close> of the UTF-8 bytes, as hex digits).
\<close>

datatype json = JString string | JNumber real | JObject "(string \<times> json) list"

fun type_value :: "PredictionType \<Rightarrow> string" where
  "type_value GRAVITATIONAL_WAVE = ''gravitational_wave''"
| "type_value GAMMA_RAY = ''gamma_ray''"
| "type_value SOLAR_FLARE = ''solar_flare''"
| "type_value TECTONIC = ''tectonic''"
| "type_value BLACK_HOLE = ''black_hole''"
| "type_value TSUNAMI = ''tsunami''"

definition hashable_data :: "(datetime \<Rightarrow> string) \<Rightarrow> Prediction \<Rightarrow> (string \<times> json) list" where
  "hashable_data isoformat p =
     [(''id'', JString (id' p)),
      (''type'', JString (type_value (prediction_type p))),
      (''created_at'', JString (isoformat (created_at p))),
      (''event_start'', JString (isoformat (predicted_event_start p))),
      (''event_end'', JString (isoformat (predicted_event_end p))),
      (''framework'', JString (framework p)),
      (''confidence'', JNumber (confidence p)),
      (''description'', JString (description p))]
     @ (case sky_location p of
          None \<Rightarrow> []
        | Some s \<Rightarrow>
            [(''sky_location'',
              JObject [(''ra'', JNumber (right_ascension s)),
                       (''dec'', JNumber (declination s))])])
     @ (case wave_parameters p of
          None \<Rightarrow> []
        | Some w \<Rightarrow>
            [(''wave_params'',
              JObject [(''freq'', JNumber (frequency_hz w)),
                       (''amp'', JNumber (amplitude w))])])"

definition compute_hash :: "(string \<Rightarrow> string) \<Rightarrow> string \<Rightarrow> string" where
  "compute_hash sha256 content = sha256 content"

definition compute_prediction_hash ::
  "(datetime \<Rightarrow> string) \<Rightarrow> (json \<Rightarrow> string) \<Rightarrow> (string \<Rightarrow> string) \<Rightarrow> Prediction \<Rightarrow> string" where
  "compute_prediction_hash isoformat dumps sha256 p =
     (let content = dumps (JObject (hashable_data isoformat p))
      in compute_hash sha256 content)"

section \<open>Matching a prediction against an event (validator.py, PredictionValidator)\<close>

record PredictionValidator =
  time_tolerance :: timedelta
  location_tolerance :: real
  frequency_tolerance :: real

definition PredictionValidator_init :: "real \<Rightarrow> real \<Rightarrow> real \<Rightarrow> PredictionValidator" where
  "PredictionValidator_init time_tolerance_hours location_tolerance_degrees
       frequency_tolerance_percent =
     \<lparr>time_tolerance = timedelta_hours time_tolerance_hours,
      location_tolerance = location_tolerance_degrees,
      frequency_tolerance = frequency_tolerance_percent / 100\<rparr>"

definition check_time_match :: "PredictionValidator \<Rightarrow> Prediction \<Rightarrow> datetime \<Rightarrow> bool \<times> real" where
  "check_time_match v p event_time =
     (if is_within_window p event_time then
        (let window_center = predicted_event_start p + timedelta_hours (time_window_hours p / 2);
             diff = \<bar>total_seconds (event_time - window_center)\<bar> / 3600
         in (True, diff))
      else
        (let start_diff = \<bar>total_seconds (event_time - predicted_event_start p)\<bar>;
             end_diff = \<bar>total_seconds (event_time - predicted_event_end p)\<bar>;
             min_diff_hours = min start_diff end_diff / 3600
         in if min_diff_hours \<le> total_seconds (time_tolerance v) / 3600
            then (True, min_diff_hours)
            else (False, min_diff_hours)))"

text \<open>
  \<open>math.sqrt\<close> and \<open>math.asin\<close> raise \<open>ValueError\<close> outside their domains;
  \<open>math.radians\<close> and \<open>math.degrees\<close> are total.
\<close>

definition math_sqrt :: "real \<Rightarrow> error + real" where
  "math_sqrt x = (if x < 0 then Inl (ValueError ''math domain error'') else Inr (sqrt x))"

definition math_asin :: "real \<Rightarrow> error + real" where
  "math_asin x =
     (if x < - 1 \<or> 1 < x then Inl (ValueError ''math domain error'') else Inr (arcsin x))"

definition math_radians :: "real \<Rightarrow> real" where
  "math_radians x = x * pi / 180"

definition math_degrees :: "real \<Rightarrow> real" where
  "math_degrees x = x * 180 / pi"

definition check_location_match ::
  "PredictionValidator \<Rightarrow> Prediction \<Rightarrow> real \<Rightarrow> real \<Rightarrow> error + (bool \<times> real)" where
  "check_location_match v p event_ra event_dec =
     (case sky_location p of
        None \<Rightarrow> Inr (True, 0)
      | Some loc \<Rightarrow>
          (let ra1 = math_radians (right_ascension loc);
               dec1 = math_radians (declination loc);
               ra2 = math_radians event_ra;
               dec2 = math_radians event_dec;
               d_ra = ra2 - ra1;
               d_dec = dec2 - dec1;
               a = (sin (d_dec / 2))\<^sup>2 + cos dec1 * cos dec2 * (sin (d_ra / 2))\<^sup>2
           in case math_sqrt a of
                Inl e \<Rightarrow> Inl e
              | Inr sqrt_a \<Rightarrow>
                  (case math_asin sqrt_a of
                     Inl e \<Rightarrow> Inl e
                   | Inr asin_root \<Rightarrow>
                       (let separation = 2 * asin_root;
                            separation_deg = math_degrees separation;
                            total_tolerance = location_tolerance v + uncertainty_radius loc
                        in Inr (separation_deg \<le> total_tolerance, separation_deg)))))"

text \<open>
  The distance a check reports is a float; \<open>Infinite\<close> is \<open>float("inf")\<close>. Float
  division raises \<open>ZeroDivisionError\<close> on a zero divisor.
\<close>

datatype distance = Finite real | Infinite

definition float_div :: "real \<Rightarrow> real \<Rightarrow> error + real" where
  "float_div a b = (if b = 0 then Inl ZeroDivisionError else Inr (a / b))"

definition check_frequency_match ::
  "PredictionValidator \<Rightarrow> Prediction \<Rightarrow> real \<Rightarrow> error + (bool \<times> distance)" where
  "check_frequency_match v p event_frequency =
     (case wave_parameters p of
        None \<Rightarrow> Inr (True, Finite 0)
      | Some w \<Rightarrow>
          (let pred_freq = frequency_hz w
           in if pred_freq = 0 then Inr (False, Infinite)
              else
                (case float_div \<bar>event_frequency - pred_freq\<bar> pred_freq of
                   Inl e \<Rightarrow> Inl e
                 | Inr diff_percent \<Rightarrow>
                     Inr (diff_percent \<le> frequency_tolerance v, Finite (diff_percent * 100)))))"

text \<open>
  The result dictionary of \<open>validate_against_event\<close>: \<open>checks\<close> has the keys
  \<open>time\<close>, \<open>location\<close> and \<open>frequency\<close>, each present or not.
\<close>

record check_results =
  time_check :: "(bool \<times> real) option"
  location_check :: "(bool \<times> real) option"
  frequency_check :: "(bool \<times> distance) option"

record validation_results =
  prediction_id :: string
  overall_match :: bool
  checks :: check_results
  match_score :: real

definition time_step ::
  "PredictionValidator \<Rightarrow> Prediction \<Rightarrow> datetime \<Rightarrow> validation_results \<Rightarrow> validation_results" where
  "time_step v p event_time r =
     (case check_time_match v p event_time of
        (time_match, time_diff) \<Rightarrow>
          (let r1 = r\<lparr>checks := (checks r)\<lparr>time_check := Some (time_match, time_diff)\<rparr>\<rparr>
           in if \<not> time_match then r1\<lparr>overall_match := False\<rparr> else r1))"

definition location_step ::
  "PredictionValidator \<Rightarrow> Prediction \<Rightarrow> real option \<Rightarrow> real option \<Rightarrow> validation_results
     \<Rightarrow> error + validation_results" where
  "location_step v p event_ra event_dec r =
     (case (event_ra, event_dec) of
        (Some ra, Some dec) \<Rightarrow>
          (case check_location_match v p ra dec of
             Inl e \<Rightarrow> Inl e
           | Inr (loc_match, loc_diff) \<Rightarrow>
               (let r1 = r\<lparr>checks := (checks r)\<lparr>location_check := Some (loc_match, loc_diff)\<rparr>\<rparr>
                in Inr (if \<not> loc_match then r1\<lparr>overall_match := False\<rparr> else r1)))
      | _ \<Rightarrow> Inr r)"

definition frequency_step ::
  "PredictionValidator \<Rightarrow> Prediction \<Rightarrow> real option \<Rightarrow> validation_results
     \<Rightarrow> error + validation_results" where
  "frequency_step v p event_frequency r =
     (case event_frequency of
        Some f \<Rightarrow>
          (case check_frequency_match v p f of
             Inl e \<Rightarrow> Inl e
           | Inr (freq_match, freq_diff) \<Rightarrow>
               (let r1 = r\<lparr>checks := (checks r)\<lparr>frequency_check := Some (freq_match, freq_diff)\<rparr>\<rparr>
                in Inr (if \<not> freq_match then r1\<lparr>overall_match := False\<rparr> else r1)))
      | None \<Rightarrow> Inr r)"

text \<open>
  \<open>max(0, 1 - (d / 100))\<close> on the sentinel: \<open>inf / 100\<close> is \<open>inf\<close>, \<open>1 - inf\<close> is
  \<open>-inf\<close>, and the maximum with 0 is 0.
\<close>

fun freq_score :: "distance \<Rightarrow> real" where
  "freq_score (Finite d) = max 0 (1 - (d / 100))"
| "freq_score Infinite = 0"

definition score_step :: "validation_results \<Rightarrow> validation_results" where
  "score_step r =
     (let scores =
            (case time_check (checks r) of
               Some (_, time_diff) \<Rightarrow> [max 0 (1 - (time_diff / 48))]
             | None \<Rightarrow> [])
          @ (case location_check (checks r) of
               Some (_, separation_degrees) \<Rightarrow> [max 0 (1 - (separation_degrees / 90))]
             | None \<Rightarrow> [])
          @ (case frequency_check (checks r) of
               Some (_, difference_percent) \<Rightarrow> [freq_score difference_percent]
             | None \<Rightarrow> [])
      in r\<lparr>match_score := (if scores \<noteq> [] then sum_list scores / real (length scores) else 0)\<rparr>)"

definition validate_against_event ::
  "PredictionValidator \<Rightarrow> Prediction \<Rightarrow> datetime \<Rightarrow> real option \<Rightarrow> real option \<Rightarrow> real option
     \<Rightarrow> error + validation_results" where
  "validate_against_event v p event_time event_ra event_dec event_frequency =
     (let results =
            \<lparr>prediction_id = id' p, overall_match = True,
             checks = \<lparr>time_check = None, location_check = None, frequency_check = None\<rparr>,
             match_score = 0\<rparr>
      in case location_step v p event_ra event_dec (time_step v p event_time results) of
           Inl e \<Rightarrow> Inl e
         | Inr r2 \<Rightarrow>
             (case frequency_step v p event_frequency r2 of
                Inl e \<Rightarrow> Inl e
              | Inr r3 \<Rightarrow> Inr (score_step r3)))"

text \<open>
  The quantity \<open>a\<close> of the haversine formula, as \<open>check_location_match\<close> computes it.
\<close>

definition haversine_a :: "SkyLocation \<Rightarrow> real \<Rightarrow> real \<Rightarrow> real" where
  "haversine_a loc event_ra event_dec =
     (sin ((math_radians event_dec - math_radians (declination loc)) / 2))\<^sup>2
     + cos (math_radians (declination loc)) * cos (math_radians event_dec)
       * (sin ((math_radians event_ra - math_radians (right_ascension loc)) / 2))\<^sup>2"

section \<open>Text extraction (parser.py, PredictionParser)\<close>

subsection \<open>Characters and strings\<close>

text \<open>
  The character classes of Python on the code points below 256: \<open>str.isspace\<close> (which
  is also the class \<open>\s\<close> of \<open>re\<close>), the decimal digits (\<open>\d\<close>), the word
  characters (\<open>\w\<close>: alphanumeric or underscore) and \<open>str.lower\<close>.
\<close>

definition is_space :: "char \<Rightarrow> bool" where
  "is_space c \<longleftrightarrow>
     c \<in> set [CHR 0x09, CHR 0x0A, CHR 0x0B, CHR 0x0C, CHR 0x0D, CHR 0x1C, CHR 0x1D, CHR 0x1E,
               CHR 0x1F, CHR 0x20, CHR 0x85, CHR 0xA0]"

definition is_digit :: "char \<Rightarrow> bool" where
  "is_digit c \<longleftrightarrow> c \<in> set ''0123456789''"

definition is_ascii_letter :: "char \<Rightarrow> bool" where
  "is_ascii_letter c \<longleftrightarrow>
     c \<in> set ''ABCDEFGHIJKLMNOPQRSTUVWXYZabcdefghijklmnopqrstuvwxyz''"

definition is_word :: "char \<Rightarrow> bool" where
  "is_word c \<longleftrightarrow>
     is_ascii_letter c \<or> is_digit c \<or> c = CHR ''_''
     \<or> (let n = (of_char c :: nat)
         in n \<in> set [170, 178, 179, 181, 185, 186, 188, 189, 190]
            \<or> (192 \<le> n \<and> n \<noteq> 215 \<and> n \<noteq> 247))"

definition ascii_upper :: string where
  "ascii_upper = ''ABCDEFGHIJKLMNOPQRSTUVWXYZ''"

definition ascii_lower :: string where
  "ascii_lower = ''abcdefghijklmnopqrstuvwxyz''"

definition latin1_upper :: string where
  "latin1_upper =
     [CHR 0xC0, CHR 0xC1, CHR 0xC2, CHR 0xC3, CHR 0xC4, CHR 0xC5, CHR 0xC6, CHR 0xC7,
      CHR 0xC8, CHR 0xC9, CHR 0xCA, CHR 0xCB, CHR 0xCC, CHR 0xCD, CHR 0xCE, CHR 0xCF,
      CHR 0xD0, CHR 0xD1, CHR 0xD2, CHR 0xD3, CHR 0xD4, CHR 0xD5, CHR 0xD6, CHR 0xD8,
      CHR 0xD9, CHR 0xDA, CHR 0xDB, CHR 0xDC, CHR 0xDD, CHR 0xDE]"

definition latin1_lower :: string where
  "latin1_lower =
     [CHR 0xE0, CHR 0xE1, CHR 0xE2, CHR 0xE3, CHR 0xE4, CHR 0xE5, CHR 0xE6, CHR 0xE7,
      CHR 0xE8, CHR 0xE9, CHR 0xEA, CHR 0xEB, CHR 0xEC, CHR 0xED, CHR 0xEE, CHR 0xEF,
      CHR 0xF0, CHR 0xF1, CHR 0xF2, CHR 0xF3, CHR 0xF4, CHR 0xF5, CHR 0xF6, CHR 0xF8,
      CHR 0xF9, CHR 0xFA, CHR 0xFB, CHR 0xFC, CHR 0xFD, CHR 0xFE]"

definition lower_char :: "char \<Rightarrow> char" where
  "lower_char c =
     (case map_of (zip (ascii_upper @ latin1_upper) (ascii_lower @ latin1_lower)) c of
        Some l \<Rightarrow> l
      | None \<Rightarrow> c)"

definition lower :: "string \<Rightarrow> string" where
  "lower s = map lower_char s"

text \<open>
  \<open>str.upper\<close> on ASCII letters. The parser applies it to a framework label only,
  which the framework pattern makes a word of ASCII letters.
\<close>

definition upper_char :: "char \<Rightarrow> char" where
  "upper_char c = (case map_of (zip ascii_lower ascii_upper) c of Some u \<Rightarrow> u | None \<Rightarrow> c)"

definition upper :: "string \<Rightarrow> string" where
  "upper s = map upper_char s"

definition strip :: "string \<Rightarrow> string" where
  "strip s = rev (dropWhile is_space (rev (dropWhile is_space s)))"

definition startswith :: "string \<Rightarrow> string \<Rightarrow> bool" where
  "startswith s k \<longleftrightarrow> take (length k) s = k"

text \<open>\<open>k in s\<close>: the string \<open>k\<close> occurs in \<open>s\<close>.\<close>

fun contains :: "string \<Rightarrow> string \<Rightarrow> bool" where
  "contains [] k = (k = [])"
| "contains (c # cs) k = (startswith (c # cs) k \<or> contains cs k)"

text \<open>\<open>s.split("\n")\<close>.\<close>

fun split_newline :: "string \<Rightarrow> string list" where
  "split_newline [] = [[]]"
| "split_newline (c # cs) =
     (if c = CHR 0x0A then [] # split_newline cs
      else (case split_newline cs of
              [] \<Rightarrow> [[c]]
            | l # ls \<Rightarrow> (c # l) # ls))"

subsection \<open>The conversion \<open>float(s)\<close>\<close>

text \<open>
  \<open>float\<close> on a string: an optional sign, digits with an optional point (at least one
  digit), an optional exponent. Everything else raises \<open>ValueError\<close>. The parser passes
  only strings over the characters \<open>0-9 . e E + -\<close>, on which this is the whole grammar
  of \<open>float\<close>.
\<close>

definition digit_value :: "char \<Rightarrow> nat" where
  "digit_value c = of_char c - 48"

definition digits_value :: "string \<Rightarrow> nat" where
  "digits_value ds = foldl (\<lambda>a c. 10 * a + digit_value c) 0 ds"

definition split_sign :: "string \<Rightarrow> real \<times> string" where
  "split_sign s =
     (case s of
        [] \<Rightarrow> (1, s)
      | c # r \<Rightarrow> if c = CHR ''+'' then (1, r) else if c = CHR ''-'' then (- 1, r) else (1, s))"

definition float_mantissa :: "string \<Rightarrow> (real \<times> string) option" where
  "float_mantissa s =
     (let ip = takeWhile is_digit s; r1 = dropWhile is_digit s
      in case r1 of
           [] \<Rightarrow> if ip = [] then None else Some (real (digits_value ip), r1)
         | c # r2 \<Rightarrow>
             if c = CHR ''.'' then
               (let fp = takeWhile is_digit r2; r3 = dropWhile is_digit r2
                in if ip = [] \<and> fp = [] then None
                   else Some (real (digits_value ip)
                              + real (digits_value fp) / 10 ^ length fp, r3))
             else if ip = [] then None else Some (real (digits_value ip), r1))"

definition float_exponent :: "string \<Rightarrow> real option" where
  "float_exponent s =
     (case s of
        [] \<Rightarrow> Some 1
      | c # r \<Rightarrow>
          if c = CHR ''e'' \<or> c = CHR ''E'' then
            (case split_sign r of
               (sg, ds) \<Rightarrow>
                 if ds = [] \<or> \<not> list_all is_digit ds then None
                 else if sg < 0 then Some (1 / 10 ^ digits_value ds)
                 else Some (10 ^ digits_value ds))
          else None)"

definition py_float :: "string \<Rightarrow> error + real" where
  "py_float s =
     (case split_sign s of
        (sg, r) \<Rightarrow>
          (case float_mantissa r of
             None \<Rightarrow> Inl (ValueError ''could not convert string to float'')
           | Some (m, r1) \<Rightarrow>
               (case float_exponent r1 of
                  None \<Rightarrow> Inl (ValueError ''could not convert string to float'')
                | Some e \<Rightarrow> Inr (sg * m * e))))"

subsection \<open>The patterns\<close>

text \<open>
  A pattern with one group is a function from the text at a position to the group and the
  text after the match, or \<open>None\<close> when the pattern does not match at that position.
  \<open>re_search\<close> is \<open>pattern.search\<close>: the match at the leftmost position that has one.
  \<open>re_findall\<close> is \<open>pattern.findall\<close>: the groups of the successive non-overlapping
  matches, the scan resuming where the previous match ended.
\<close>

type_synonym pattern = "string \<Rightarrow> (string \<times> string) option"

fun re_search :: "pattern \<Rightarrow> string \<Rightarrow> string option" where
  "re_search m [] = map_option fst (m [])"
| "re_search m (c # cs) =
     (case m (c # cs) of Some (g, _) \<Rightarrow> Some g | None \<Rightarrow> re_search m cs)"

function re_findall :: "pattern \<Rightarrow> string \<Rightarrow> string list" where
  "re_findall m [] = []"
| "re_findall m (c # cs) =
     (case m (c # cs) of
        None \<Rightarrow> re_findall m cs
      | Some (g, rest) \<Rightarrow>
          g # re_findall m (drop (max 1 (length (c # cs) - length rest)) (c # cs)))"
  by pat_completeness auto
termination
  by (relation "measure (\<lambda>(m, s). length s)") auto

text \<open>
  A literal of lower-case ASCII letters under \<open>re.IGNORECASE\<close>: it returns the text
  after the literal.
\<close>

definition ci_literal :: "string \<Rightarrow> string \<Rightarrow> string option" where
  "ci_literal lit s =
     (if lower (take (length lit) s) = lit then Some (drop (length lit) s) else None)"

definition colon_or_space :: "char \<Rightarrow> bool" where
  "colon_or_space c \<longleftrightarrow> c = CHR '':'' \<or> is_space c"

definition digit_or_dot :: "char \<Rightarrow> bool" where
  "digit_or_dot c \<longleftrightarrow> is_digit c \<or> c = CHR ''.''"

text \<open>
  \<open>key[:\s]+(class+)\<close>, where no character of the class is a colon or a space: the
  greedy run of separators is followed by the greedy run of the class, and giving back a
  separator cannot make the class match. What follows the group in a pattern (\<open>%?\<close>,
  \<open>\s*(?:hz)?\<close>) is optional and does not change the group.
\<close>

definition key_value :: "(string \<Rightarrow> string option) \<Rightarrow> (char \<Rightarrow> bool) \<Rightarrow> pattern" where
  "key_value key cls s =
     (case key s of
        None \<Rightarrow> None
      | Some r \<Rightarrow>
          (let seps = takeWhile colon_or_space r; r1 = dropWhile colon_or_space r;
               g = takeWhile cls r1
           in if seps = [] \<or> g = [] then None else Some (g, dropWhile cls r1)))"

text \<open>An alternation tries its branches in order, each with the rest of the pattern.\<close>

definition alternation :: "pattern \<Rightarrow> pattern \<Rightarrow> pattern" where
  "alternation p1 p2 s = (case p1 s of Some x \<Rightarrow> Some x | None \<Rightarrow> p2 s)"

definition key_spaced :: "string \<Rightarrow> string \<Rightarrow> string \<Rightarrow> string option" where
  "key_spaced w1 w2 s =
     (case ci_literal w1 s of
        None \<Rightarrow> None
      | Some r \<Rightarrow> ci_literal w2 (dropWhile is_space r))"

datatype pattern_name =
    P_frequency | P_amplitude | P_chirp_mass | P_distance | P_snr | P_confidence
  | P_right_ascension | P_declination | P_framework | P_date | P_prediction_id

definition amplitude_class :: "char \<Rightarrow> bool" where
  "amplitude_class c \<longleftrightarrow> is_digit c \<or> c \<in> set ''.eE-+''"

definition declination_class :: "char \<Rightarrow> bool" where
  "declination_class c \<longleftrightarrow> is_digit c \<or> c \<in> set ''.-+''"

definition id_class :: "char \<Rightarrow> bool" where
  "id_class c \<longleftrightarrow> is_ascii_letter c \<or> is_digit c \<or> c \<in> set ''-_''"

definition id_separator :: "char \<Rightarrow> bool" where
  "id_separator c \<longleftrightarrow> c = CHR '':'' \<or> is_space c \<or> c = CHR ''#''"

text \<open>\<open>framework[:\s]+(CIA|SIA|HIA|IIA|Experimental)\<close>: the group is the text as written.\<close>

fun first_label :: "string list \<Rightarrow> string \<Rightarrow> (string \<times> string) option" where
  "first_label [] s = None"
| "first_label (l # ls) s =
     (case ci_literal l s of
        Some r \<Rightarrow> Some (take (length l) s, r)
      | None \<Rightarrow> first_label ls s)"

definition framework_pattern :: pattern where
  "framework_pattern s =
     (case ci_literal ''framework'' s of
        None \<Rightarrow> None
      | Some r \<Rightarrow>
          if takeWhile colon_or_space r = [] then None
          else first_label [''cia'', ''sia'', ''hia'', ''iia'', ''experimental'']
                 (dropWhile colon_or_space r))"

text \<open>
  \<open>(\d{1,2}[/\-]\d{1,2}[/\-]\d{2,4})\<close>. \<open>digits_between lo hi\<close> lists the ways
  \<open>\d{lo,hi}\<close> matches, longest first; the first way through the whole pattern is the
  match.
\<close>

definition digits_between :: "nat \<Rightarrow> nat \<Rightarrow> string \<Rightarrow> (string \<times> string) list" where
  "digits_between lo hi s =
     (let n = length (takeWhile is_digit (take hi s))
      in map (\<lambda>k. (take k s, drop k s)) (rev [lo..<Suc n]))"

definition date_separator :: "string \<Rightarrow> (string \<times> string) list" where
  "date_separator s =
     (case s of
        [] \<Rightarrow> []
      | c # r \<Rightarrow> if c = CHR ''/'' \<or> c = CHR ''-'' then [([c], r)] else [])"

definition date_pattern :: pattern where
  "date_pattern s =
     (case [(d1 @ s1 @ d2 @ s2 @ d3, r5).
              (d1, r1) \<leftarrow> digits_between 1 2 s, (s1, r2) \<leftarrow> date_separator r1,
              (d2, r3) \<leftarrow> digits_between 1 2 r2, (s2, r4) \<leftarrow> date_separator r3,
              (d3, r5) \<leftarrow> digits_between 2 4 r4] of
        [] \<Rightarrow> None
      | x # _ \<Rightarrow> Some x)"

text \<open>
  \<open>(?:id|simulation)[:\s#]*([A-Za-z0-9\-_]+)\<close>: the separators are optional here.
\<close>

definition id_value :: "string \<Rightarrow> pattern" where
  "id_value key s =
     (case ci_literal key s of
        None \<Rightarrow> None
      | Some r \<Rightarrow>
          (let r1 = dropWhile id_separator r; g = takeWhile id_class r1
           in if g = [] then None else Some (g, dropWhile id_class r1)))"

fun PATTERNS :: "pattern_name \<Rightarrow> pattern" where
  "PATTERNS P_frequency = key_value (ci_literal ''frequency'') digit_or_dot"
| "PATTERNS P_amplitude = key_value (ci_literal ''amplitude'') amplitude_class"
| "PATTERNS P_chirp_mass = key_value (key_spaced ''chirp'' ''mass'') digit_or_dot"
| "PATTERNS P_distance = key_value (ci_literal ''distance'') digit_or_dot"
| "PATTERNS P_snr = key_value (ci_literal ''snr'') digit_or_dot"
| "PATTERNS P_confidence = key_value (ci_literal ''confidence'') digit_or_dot"
| "PATTERNS P_right_ascension =
     alternation (key_value (ci_literal ''ra'') digit_or_dot)
       (key_value (key_spaced ''right'' ''ascension'') digit_or_dot)"
| "PATTERNS P_declination =
     alternation (key_value (ci_literal ''dec'') declination_class)
       (key_value (ci_literal ''declination'') declination_class)"
| "PATTERNS P_framework = framework_pattern"
| "PATTERNS P_date = date_pattern"
| "PATTERNS P_prediction_id = alternation (id_value ''id'') (id_value ''simulation'')"

definition extract_pattern :: "pattern_name \<Rightarrow> string \<Rightarrow> string option" where
  "extract_pattern pattern_name content = re_search (PATTERNS pattern_name) content"

text \<open>
  \<open>x or d\<close> and \<open>if x\<close> on an optional string: \<open>None\<close> and the empty string are
  false.
\<close>

definition truthy :: "string option \<Rightarrow> bool" where
  "truthy x \<longleftrightarrow> x \<noteq> None \<and> x \<noteq> Some []"

definition or_else :: "string option \<Rightarrow> string \<Rightarrow> string" where
  "or_else x d = (case x of None \<Rightarrow> d | Some g \<Rightarrow> if g = [] then d else g)"

subsection \<open>Category, wave parameters, sky location\<close>

definition TYPE_KEYWORDS :: "(PredictionType \<times> string list) list" where
  "TYPE_KEYWORDS =
     [(GRAVITATIONAL_WAVE, [''gravitational'', ''gw'', ''ligo'', ''merger'', ''binary'']),
      (GAMMA_RAY, [''gamma'', ''grb'', ''burst'']),
      (SOLAR_FLARE, [''solar'', ''flare'', ''cme'', ''sun'']),
      (TECTONIC, [''tectonic'', ''earthquake'', ''seismic'', ''quake'']),
      (BLACK_HOLE, [''black hole'', ''blackhole'', ''event horizon'']),
      (TSUNAMI, [''tsunami'', ''tidal wave''])]"

text \<open>The loop over the items of the keyword table, in their order.\<close>

fun infer_loop :: "(PredictionType \<times> string list) list \<Rightarrow> string \<Rightarrow> PredictionType" where
  "infer_loop [] content_lower = GRAVITATIONAL_WAVE"
| "infer_loop ((pred_type, keywords) # items) content_lower =
     (if list_ex (\<lambda>keyword. contains content_lower keyword) keywords then pred_type
      else infer_loop items content_lower)"

definition infer_prediction_type :: "string \<Rightarrow> PredictionType" where
  "infer_prediction_type content = infer_loop TYPE_KEYWORDS (lower content)"

definition safe_float :: "string option \<Rightarrow> real option" where
  "safe_float v =
     (case v of
        None \<Rightarrow> None
      | Some x \<Rightarrow> (case py_float x of Inl e \<Rightarrow> None | Inr f \<Rightarrow> Some f))"

text \<open>
  The body of each \<open>try\<close> returns an error or the record; the \<open>except ValueError\<close>
  turns every error into \<open>None\<close> (the body raises nothing but \<open>ValueError\<close>).
\<close>

text \<open>\<open>float(x) if x else d\<close>.\<close>

definition float_or_default :: "string option \<Rightarrow> real \<Rightarrow> error + real" where
  "float_or_default x d = (if truthy x then (case x of Some g \<Rightarrow> py_float g | None \<Rightarrow> Inr d) else Inr d)"

definition try_wave_parameters :: "string option \<Rightarrow> string option \<Rightarrow> string \<Rightarrow> error + WaveParameters" where
  "try_wave_parameters frequency amplitude' content =
     (case float_or_default frequency 100 of
        Inl e \<Rightarrow> Inl e
      | Inr f \<Rightarrow>
          (case float_or_default amplitude' (1 / 10 ^ 21) of
             Inl e \<Rightarrow> Inl e
           | Inr a \<Rightarrow>
               WaveParameters_post_init
                 \<lparr>frequency_hz = f, amplitude = a,
                  chirp_mass = safe_float (extract_pattern P_chirp_mass content),
                  distance_mpc = safe_float (extract_pattern P_distance content),
                  snr = safe_float (extract_pattern P_snr content)\<rparr>))"

definition extract_wave_parameters :: "string \<Rightarrow> WaveParameters option" where
  "extract_wave_parameters content =
     (let frequency = extract_pattern P_frequency content;
          amplitude' = extract_pattern P_amplitude content
      in if \<not> truthy frequency \<and> \<not> truthy amplitude' then None
         else (case try_wave_parameters frequency amplitude' content of
                 Inl e \<Rightarrow> None
               | Inr w \<Rightarrow> Some w))"

definition try_sky_location :: "string \<Rightarrow> string \<Rightarrow> error + SkyLocation" where
  "try_sky_location ra dec =
     (case py_float ra of
        Inl e \<Rightarrow> Inl e
      | Inr r \<Rightarrow>
          (case py_float dec of
             Inl e \<Rightarrow> Inl e
           | Inr d \<Rightarrow>
               SkyLocation_post_init
                 \<lparr>right_ascension = r, declination = d, uncertainty_radius = 0\<rparr>))"

definition extract_sky_location :: "string \<Rightarrow> SkyLocation option" where
  "extract_sky_location content =
     (let ra = extract_pattern P_right_ascension content;
          dec = extract_pattern P_declination content
      in if \<not> truthy ra \<or> \<not> truthy dec then None
         else (case (ra, dec) of
                 (Some r, Some d) \<Rightarrow>
                   (case try_sky_location r d of
                      Inl e \<Rightarrow> None
                    | Inr loc \<Rightarrow> Some loc)
               | _ \<Rightarrow> None))"

subsection \<open>Description and tags\<close>

fun first_description :: "string list \<Rightarrow> string" where
  "first_description [] = ''No description available''"
| "first_description (l # lines) =
     (let line = strip l
      in if line \<noteq> [] \<and> \<not> startswith line ''#'' \<and> length line > 10 then take 200 line
         else first_description lines)"

definition extract_description :: "string \<Rightarrow> string" where
  "extract_description content = first_description (split_newline (strip content))"

text \<open>
  \<open>#(\w+)\<close>. The order in which \<open>list(set(tags))\<close> lists the distinct tags is not
  fixed by the language; it is the parameter \<open>set_order\<close>.
\<close>

definition tag_pattern :: pattern where
  "tag_pattern s =
     (case s of
        [] \<Rightarrow> None
      | c # r \<Rightarrow>
          if c = CHR ''#'' \<and> takeWhile is_word r \<noteq> []
          then Some (takeWhile is_word r, dropWhile is_word r) else None)"

definition extract_tags :: "(string list \<Rightarrow> string list) \<Rightarrow> string \<Rightarrow> string list" where
  "extract_tags set_order content = take 10 (set_order (re_findall tag_pattern content))"

subsection \<open>Dates\<close>

text \<open>
  \<open>datetime.strptime\<close> for the directives the parser uses. Each directive is the regular
  expression of the library: \<open>%m\<close> is \<open>1[0-2]|0[1-9]|[1-9]\<close>, \<open>%d\<close> is
  \<open>3[0-1]|[1-2]\d|0[1-9]|[1-9]| [1-9]\<close>, \<open>%Y\<close> is four digits, \<open>%y\<close> two digits
  (00-68 in 2000-2068, 69-99 in 1969-1999). A directive lists its ways to match in the
  order of its alternatives; the first way through the whole format is the match, the
  data must end where it ends, and the date must exist.
\<close>

datatype directive = D_m | D_d | D_Y | D_y | D_literal char

fun directives :: "string \<Rightarrow> directive list" where
  "directives [] = []"
| "directives [c] = [D_literal c]"
| "directives (c # x # r) =
     (if c = CHR ''%'' then
        (if x = CHR ''m'' then D_m else if x = CHR ''d'' then D_d
         else if x = CHR ''Y'' then D_Y else if x = CHR ''y'' then D_y else D_literal x)
        # directives r
      else D_literal c # directives (x # r))"

record date_fields =
  year :: nat
  month :: nat
  day :: nat

definition take_if :: "nat \<Rightarrow> (string \<Rightarrow> bool) \<Rightarrow> string \<Rightarrow> (string \<times> string) list" where
  "take_if n ok s = (if n \<le> length s \<and> ok (take n s) then [(take n s, drop n s)] else [])"

definition month_ways :: "string \<Rightarrow> (string \<times> string) list" where
  "month_ways s =
     take_if 2 (\<lambda>t. t ! 0 = CHR ''1'' \<and> t ! 1 \<in> set ''012'') s
     @ take_if 2 (\<lambda>t. t ! 0 = CHR ''0'' \<and> t ! 1 \<in> set ''123456789'') s
     @ take_if 1 (\<lambda>t. t ! 0 \<in> set ''123456789'') s"

definition day_ways :: "string \<Rightarrow> (string \<times> string) list" where
  "day_ways s =
     take_if 2 (\<lambda>t. t ! 0 = CHR ''3'' \<and> t ! 1 \<in> set ''01'') s
     @ take_if 2 (\<lambda>t. t ! 0 \<in> set ''12'' \<and> is_digit (t ! 1)) s
     @ take_if 2 (\<lambda>t. t ! 0 = CHR ''0'' \<and> t ! 1 \<in> set ''123456789'') s
     @ take_if 1 (\<lambda>t. t ! 0 \<in> set ''123456789'') s
     @ take_if 2 (\<lambda>t. t ! 0 = CHR '' '' \<and> t ! 1 \<in> set ''123456789'') s"

fun match_directive :: "directive \<Rightarrow> date_fields \<times> string \<Rightarrow> (date_fields \<times> string) list" where
  "match_directive D_m (f, s) =
     map (\<lambda>(t, r). (f\<lparr>month := digits_value t\<rparr>, r)) (month_ways s)"
| "match_directive D_d (f, s) =
     map (\<lambda>(t, r). (f\<lparr>day := digits_value (dropWhile is_space t)\<rparr>, r)) (day_ways s)"
| "match_directive D_Y (f, s) =
     map (\<lambda>(t, r). (f\<lparr>year := digits_value t\<rparr>, r)) (take_if 4 (list_all is_digit) s)"
| "match_directive D_y (f, s) =
     map (\<lambda>(t, r).
            (f\<lparr>year := (if digits_value t \<le> 68 then 2000 + digits_value t
                         else 1900 + digits_value t)\<rparr>, r))
         (take_if 2 (list_all is_digit) s)"
| "match_directive (D_literal c) (f, s) =
     (case s of [] \<Rightarrow> [] | x # r \<Rightarrow> if x = c then [(f, r)] else [])"

fun match_format :: "directive list \<Rightarrow> date_fields \<times> string \<Rightarrow> (date_fields \<times> string) list" where
  "match_format [] st = [st]"
| "match_format (d # ds) st = concat (map (match_format ds) (match_directive d st))"

definition is_leap :: "nat \<Rightarrow> bool" where
  "is_leap y \<longleftrightarrow> y mod 4 = 0 \<and> (y mod 100 \<noteq> 0 \<or> y mod 400 = 0)"

definition days_in_month :: "nat \<Rightarrow> nat \<Rightarrow> nat" where
  "days_in_month y m =
     (if m = 2 \<and> is_leap y then 29
      else [31, 28, 31, 30, 31, 30, 31, 31, 30, 31, 30, 31] ! (m - 1))"

definition days_before_year :: "nat \<Rightarrow> nat" where
  "days_before_year y = (y - 1) * 365 + (y - 1) div 4 - (y - 1) div 100 + (y - 1) div 400"

definition days_before_month :: "nat \<Rightarrow> nat \<Rightarrow> nat" where
  "days_before_month y m =
     [0, 31, 59, 90, 120, 151, 181, 212, 243, 273, 304, 334] ! (m - 1)
     + (if m > 2 \<and> is_leap y then 1 else 0)"

definition ymd2ord :: "nat \<Rightarrow> nat \<Rightarrow> nat \<Rightarrow> nat" where
  "ymd2ord y m d = days_before_year y + days_before_month y m + d"

text \<open>\<open>datetime(y, m, d)\<close>: midnight of that day, or \<open>ValueError\<close> when there is no such day.\<close>

definition datetime_ymd :: "nat \<Rightarrow> nat \<Rightarrow> nat \<Rightarrow> error + datetime" where
  "datetime_ymd y m d =
     (if \<not> (1 \<le> y \<and> y \<le> 9999) then Inl (ValueError ''year is out of range'')
      else if \<not> (1 \<le> m \<and> m \<le> 12) then Inl (ValueError ''month must be in 1..12'')
      else if \<not> (1 \<le> d \<and> d \<le> days_in_month y m)
        then Inl (ValueError ''day is out of range for month'')
      else Inr (real (ymd2ord y m d) * 86400))"

definition strptime :: "string \<Rightarrow> string \<Rightarrow> error + datetime" where
  "strptime date_str fmt =
     (case match_format (directives fmt) (\<lparr>year = 1900, month = 1, day = 1\<rparr>, date_str) of
        [] \<Rightarrow> Inl (ValueError ''time data does not match format'')
      | (f, rest) # _ \<Rightarrow>
          if rest \<noteq> [] then Inl (ValueError ''unconverted data remains'')
          else datetime_ymd (year f) (month f) (day f))"

fun parse_date_loop :: "string list \<Rightarrow> string \<Rightarrow> error + datetime" where
  "parse_date_loop [] date_str = Inl (ValueError ''Cannot parse date'')"
| "parse_date_loop (fmt # formats) date_str =
     (case strptime date_str fmt of
        Inr t \<Rightarrow> Inr t
      | Inl e \<Rightarrow> parse_date_loop formats date_str)"

definition parse_date :: "string \<Rightarrow> error + datetime" where
  "parse_date date_str =
     parse_date_loop [''%m/%d/%Y'', ''%m-%d-%Y'', ''%m/%d/%y'', ''%m-%d-%y'', ''%Y-%m-%d'']
       date_str"

text \<open>
  \<open>datetime + timedelta\<close> raises \<open>OverflowError\<close> when the sum leaves the years 1 to
  9999 (the ordinals 1 to 3652059).
\<close>

definition datetime_add :: "datetime \<Rightarrow> timedelta \<Rightarrow> error + datetime" where
  "datetime_add t d =
     (if t + d < 86400 \<or> 3652060 * 86400 \<le> t + d then Inl OverflowError else Inr (t + d))"

subsection \<open>\<open>parse_content\<close>\<close>

text \<open>
  What \<open>parse_content\<close> takes from its surroundings: the clock (\<open>datetime.now()\<close>),
  \<open>Path(source).stem\<close> and the order of a set of tags.
\<close>

record environment =
  now :: datetime
  path_stem :: "string \<Rightarrow> string"
  set_order :: "string list \<Rightarrow> string list"

definition generate_id :: "environment \<Rightarrow> string \<Rightarrow> string" where
  "generate_id env source = ''PRED-'' @ path_stem env source"

definition parse_confidence :: "string \<Rightarrow> error + real" where
  "parse_confidence content =
     (let confidence_str = extract_pattern P_confidence content
      in case (if truthy confidence_str
               then (case float_or_default confidence_str 0 of
                       Inl e \<Rightarrow> Inl e
                     | Inr x \<Rightarrow> Inr (x / 100))
               else Inr (1 / 2)) of
           Inl e \<Rightarrow> Inl e
         | Inr confidence0 \<Rightarrow>
             Inr (if confidence0 > 1 then confidence0 / 100 else confidence0))"

definition parse_event_date :: "datetime \<Rightarrow> string \<Rightarrow> datetime" where
  "parse_event_date now0 content =
     (let dates = re_findall (PATTERNS P_date) content
      in case dates of
           [] \<Rightarrow> now0
         | d # _ \<Rightarrow> (case parse_date d of Inl e \<Rightarrow> now0 | Inr t \<Rightarrow> t))"

definition parse_content :: "environment \<Rightarrow> string \<Rightarrow> string \<Rightarrow> error + Prediction" where
  "parse_content env content source_file =
     (if strip content = [] then Inl ParseError
      else
        (let prediction_id0 =
               or_else (extract_pattern P_prediction_id content) (generate_id env source_file);
             framework0 = or_else (extract_pattern P_framework content) ''Experimental'';
             prediction_type0 = infer_prediction_type content
         in case parse_confidence content of
              Inl e \<Rightarrow> Inl e
            | Inr confidence0 \<Rightarrow>
                (let wave_params =
                       (if prediction_type0 = GRAVITATIONAL_WAVE
                        then extract_wave_parameters content else None);
                     sky_location0 = extract_sky_location content;
                     event_date = parse_event_date (now env) content
                 in case datetime_add event_date (timedelta_hours 24) of
                      Inl e \<Rightarrow> Inl e
                    | Inr event_end \<Rightarrow>
                        Prediction_post_init
                          \<lparr>id' = prediction_id0, prediction_type = prediction_type0,
                           created_at = now env, predicted_event_start = event_date,
                           predicted_event_end = event_end,
                           framework =
                             (if framework0 \<noteq> ''Experimental'' then upper framework0
                              else framework0),
                           confidence = min (max confidence0 0) 1,
                           description = extract_description content,
                           sky_location = sky_location0, wave_parameters = wave_params,
                           status = PENDING, sha256_hash = None, matched_event_id = None,
                           tags = extract_tags (set_order env) content\<rparr>)))"

section \<open>Example data\<close>

text \<open>The fixture \<open>sample_prediction\<close> of the unit tests, created at the time \<open>now0\<close>.\<close>

definition sample_prediction :: "datetime \<Rightarrow> Prediction" where
  "sample_prediction now0 =
     \<lparr>id' = ''TEST-001'', prediction_type = GRAVITATIONAL_WAVE, created_at = now0,
      predicted_event_start = now0, predicted_event_end = now0 + timedelta_hours 24,
      framework = ''CIA'', confidence = 85 / 100,
      description = ''Test gravitational wave prediction'',
      sky_location = Some \<lparr>right_ascension = 180, declination = 0, uncertainty_radius = 0\<rparr>,
      wave_parameters =
        Some \<lparr>frequency_hz = 100, amplitude = 1 / 10 ^ 21, chirp_mass = None,
              distance_mpc = None, snr = None\<rparr>,
      status = PENDING, sha256_hash = None, matched_event_id = None, tags = []\<rparr>"

text \<open>
  An environment for running the parser: the clock stands at 2025-06-01T00:00:00
  (ordinal 739403), the stem of a path without directories and suffix is the path, and
  a set lists its elements in the order of their first occurrence.
\<close>

definition test_environment :: environment where
  "test_environment = \<lparr>now = 739403 * 86400, path_stem = (\<lambda>s. s), set_order = remdups\<rparr>"

section \<open>Verification\<close>


lemma sin_half_squared: "(sin (x / 2))\<^sup>2 = (1 - cos x) / (2::real)"
proof -
  have "cos x = cos (2 * (x / 2))" by simp
  also have "\<dots> = 1 - 2 * (sin (x / 2))\<^sup>2" by (rule cos_double_sin)
  finally show ?thesis by simp
qed

lemma cos_product: "cos x * cos y = (cos (x - y) + cos (x + y)) / (2::real)"
  by (simp add: cos_add cos_diff)

lemma haversine_range:
  fixes dec1 dec2 d_ra :: real
  defines "a \<equiv> (sin ((dec2 - dec1) / 2))\<^sup>2 + cos dec1 * cos dec2 * (sin (d_ra / 2))\<^sup>2"
  shows "0 \<le> a" and "a \<le> 1"
proof -
  define t where "t = (sin (d_ra / 2))\<^sup>2"
  define D where "D = cos (dec1 - dec2)"
  define S where "S = cos (dec1 + dec2)"
  have t: "0 \<le> t" "t \<le> 1" by (simp_all add: t_def abs_square_le_1 abs_sin_le_one)
  have D: "- 1 \<le> D" "D \<le> 1" by (simp_all add: D_def)
  have S: "- 1 \<le> S" "S \<le> 1" by (simp_all add: S_def)
  have "cos (dec2 - dec1) = D" unfolding D_def by (metis cos_minus minus_diff_eq)
  then have a: "a = (1 - D) / 2 + (D + S) / 2 * t"
    unfolding a_def t_def D_def S_def by (simp add: sin_half_squared cos_product)
  have 1: "(1 - t) * D \<le> (1 - t) * 1" using t D by (intro mult_left_mono) auto
  have 2: "(1 - t) * (- 1) \<le> (1 - t) * D" using t D by (intro mult_left_mono) auto
  have 3: "t * S \<le> t * 1" using t S by (intro mult_left_mono) auto
  have 4: "t * (- 1) \<le> t * S" using t S by (intro mult_left_mono) auto
  have e: "2 * a = 1 - (1 - t) * D + t * S" unfolding a by (simp add: field_simps)
  show "0 \<le> a" using e 1 4 by simp
  show "a \<le> 1" using e 2 3 by simp
qed


lemma haversine_a_range: "0 \<le> haversine_a loc ra dec" "haversine_a loc ra dec \<le> 1"
  unfolding haversine_a_def by (rule haversine_range)+

lemma check_location_match_Some:
  assumes "sky_location p = Some loc"
  shows "check_location_match v p ra dec =
           Inr (math_degrees (2 * arcsin (sqrt (haversine_a loc ra dec)))
                  \<le> location_tolerance v + uncertainty_radius loc,
                math_degrees (2 * arcsin (sqrt (haversine_a loc ra dec))))"
proof -
  have s: "math_sqrt (haversine_a loc ra dec) = Inr (sqrt (haversine_a loc ra dec))"
    using haversine_a_range(1) [of loc ra dec] by (simp add: math_sqrt_def)
  have "\<not> (sqrt (haversine_a loc ra dec) < - 1 \<or> 1 < sqrt (haversine_a loc ra dec))"
  proof -
    have "0 \<le> sqrt (haversine_a loc ra dec)"
      by (rule real_sqrt_ge_zero) (rule haversine_a_range)
    moreover have "sqrt (haversine_a loc ra dec) \<le> 1"
      using haversine_a_range(2) [of loc ra dec] by simp
    ultimately show ?thesis by linarith
  qed
  then have a: "math_asin (sqrt (haversine_a loc ra dec)) = Inr (arcsin (sqrt (haversine_a loc ra dec)))"
    by (simp only: math_asin_def if_False)
  show ?thesis
    unfolding check_location_match_def using assms
    by (simp add: Let_def haversine_a_def [symmetric] s a)
qed

lemma check_location_match_total: "\<exists>x. check_location_match v p ra dec = Inr x"
proof (cases "sky_location p")
  case None
  then show ?thesis by (auto simp: check_location_match_def)
next
  case (Some loc)
  then show ?thesis by (simp add: check_location_match_Some)
qed

lemma check_frequency_match_total: "\<exists>x. check_frequency_match v p f = Inr x"
  by (auto simp: check_frequency_match_def float_div_def Let_def split: option.split)

text \<open>
  Claim C3. An event inside the window (bounds included) matches, and the distance
  reported is the absolute number of hours from the middle of the window; at either end
  of the window that is half the length of the window. An event outside the window is
  reported at the smaller of its distances in hours to the start and to the end, and
  matches exactly when that distance is at most the configured tolerance.
\<close>

theorem check_time_match_spec:
  "(predicted_event_start p \<le> t \<and> t \<le> predicted_event_end p \<longrightarrow>
      check_time_match v p t =
        (True, \<bar>t - (predicted_event_start p + predicted_event_end p) / 2\<bar> / 3600))
   \<and> (predicted_event_start p \<le> predicted_event_end p
        \<and> (t = predicted_event_start p \<or> t = predicted_event_end p) \<longrightarrow>
      check_time_match v p t =
        (True, (predicted_event_end p - predicted_event_start p) / 3600 / 2))
   \<and> (\<not> (predicted_event_start p \<le> t \<and> t \<le> predicted_event_end p) \<longrightarrow>
      check_time_match v p t =
        (min \<bar>t - predicted_event_start p\<bar> \<bar>t - predicted_event_end p\<bar> / 3600
           \<le> total_seconds (time_tolerance v) / 3600,
         min \<bar>t - predicted_event_start p\<bar> \<bar>t - predicted_event_end p\<bar> / 3600))"
proof (intro conjI impI)
  have c: "predicted_event_start p + timedelta_hours (time_window_hours p / 2)
        = (predicted_event_start p + predicted_event_end p) / 2"
    by (simp add: timedelta_hours_def time_window_hours_def total_seconds_def field_simps)
  {
    assume w: "predicted_event_start p \<le> t \<and> t \<le> predicted_event_end p"
    then have "is_within_window p t" by (simp add: is_within_window_def)
    then show "check_time_match v p t =
          (True, \<bar>t - (predicted_event_start p + predicted_event_end p) / 2\<bar> / 3600)"
      by (simp add: check_time_match_def total_seconds_def Let_def c)
  }
  {
    assume b: "predicted_event_start p \<le> predicted_event_end p
          \<and> (t = predicted_event_start p \<or> t = predicted_event_end p)"
    then have w: "is_within_window p t" by (auto simp: is_within_window_def)
    from b have "\<bar>t - (predicted_event_start p + predicted_event_end p) / 2\<bar>
                   = (predicted_event_end p - predicted_event_start p) / 2"
      by (auto simp: abs_if field_simps)
    with w show "check_time_match v p t =
          (True, (predicted_event_end p - predicted_event_start p) / 3600 / 2)"
      by (simp add: check_time_match_def total_seconds_def Let_def c)
  }
  {
    assume "\<not> (predicted_event_start p \<le> t \<and> t \<le> predicted_event_end p)"
    then have "\<not> is_within_window p t" by (simp add: is_within_window_def)
    then show "check_time_match v p t =
          (min \<bar>t - predicted_event_start p\<bar> \<bar>t - predicted_event_end p\<bar> / 3600
             \<le> total_seconds (time_tolerance v) / 3600,
           min \<bar>t - predicted_event_start p\<bar> \<bar>t - predicted_event_end p\<bar> / 3600)"
      by (simp add: check_time_match_def total_seconds_def Let_def)
  }
qed

theorem check_time_match_spec_witness:
  "check_time_match (PredictionValidator_init 24 30 50) (sample_prediction 86400) 108000
     = (True, 6)
   \<and> check_time_match (PredictionValidator_init 24 30 50) (sample_prediction 86400) 172800
     = (True, 12)
   \<and> check_time_match (PredictionValidator_init 24 30 50) (sample_prediction 86400) 82800
     = (True, 1)
   \<and> check_time_match (PredictionValidator_init 24 30 50) (sample_prediction 86400) 532800
     = (False, 100)"
  using check_time_match_spec [of "sample_prediction 86400" 108000 "PredictionValidator_init 24 30 50"]
        check_time_match_spec [of "sample_prediction 86400" 172800 "PredictionValidator_init 24 30 50"]
        check_time_match_spec [of "sample_prediction 86400" 82800 "PredictionValidator_init 24 30 50"]
        check_time_match_spec [of "sample_prediction 86400" 532800 "PredictionValidator_init 24 30 50"]
  by (simp add: sample_prediction_def PredictionValidator_init_def timedelta_hours_def
        total_seconds_def)


text \<open>
  Claim C4. With a sky location, the separation reported is the haversine separation in
  degrees, and the event matches exactly when it is at most the configured tolerance plus
  the uncertainty radius of the prediction; the domain errors of \<open>math.sqrt\<close> and
  \<open>math.asin\<close> never occur. At the predicted position itself the separation is 0.
  Without a sky location the check matches with distance 0.
\<close>

theorem check_location_match_spec:
  "(\<forall>loc. sky_location p = Some loc \<longrightarrow>
      (\<exists>sep. check_location_match v p ra dec
                 = Inr (sep \<le> location_tolerance v + uncertainty_radius loc, sep)
         \<and> sep = 2 * arcsin (sqrt
                    ((sin ((dec * pi / 180 - declination loc * pi / 180) / 2))\<^sup>2
                     + cos (declination loc * pi / 180) * cos (dec * pi / 180)
                       * (sin ((ra * pi / 180 - right_ascension loc * pi / 180) / 2))\<^sup>2))
                 * 180 / pi
         \<and> (ra = right_ascension loc \<and> dec = declination loc \<longrightarrow> sep = 0)))
   \<and> (sky_location p = None \<longrightarrow> check_location_match v p ra dec = Inr (True, 0))"
proof (intro conjI allI impI)
  fix loc
  assume l: "sky_location p = Some loc"
  let ?sep = "math_degrees (2 * arcsin (sqrt (haversine_a loc ra dec)))"
  have 1: "check_location_match v p ra dec
             = Inr (?sep \<le> location_tolerance v + uncertainty_radius loc, ?sep)"
    by (rule check_location_match_Some [OF l])
  have 2: "?sep = 2 * arcsin (sqrt
                    ((sin ((dec * pi / 180 - declination loc * pi / 180) / 2))\<^sup>2
                     + cos (declination loc * pi / 180) * cos (dec * pi / 180)
                       * (sin ((ra * pi / 180 - right_ascension loc * pi / 180) / 2))\<^sup>2))
                 * 180 / pi"
    by (simp add: math_degrees_def haversine_a_def math_radians_def)
  have 3: "ra = right_ascension loc \<and> dec = declination loc \<longrightarrow> ?sep = 0"
    by (simp add: math_degrees_def haversine_a_def)
  from 1 2 3
  show "\<exists>sep. check_location_match v p ra dec
                 = Inr (sep \<le> location_tolerance v + uncertainty_radius loc, sep)
         \<and> sep = 2 * arcsin (sqrt
                    ((sin ((dec * pi / 180 - declination loc * pi / 180) / 2))\<^sup>2
                     + cos (declination loc * pi / 180) * cos (dec * pi / 180)
                       * (sin ((ra * pi / 180 - right_ascension loc * pi / 180) / 2))\<^sup>2))
                 * 180 / pi
         \<and> (ra = right_ascension loc \<and> dec = declination loc \<longrightarrow> sep = 0)"
    by blast
next
  assume "sky_location p = None"
  then show "check_location_match v p ra dec = Inr (True, 0)"
    by (simp add: check_location_match_def)
qed

theorem check_location_match_spec_witness:
  "check_location_match (PredictionValidator_init 24 30 50) (sample_prediction 86400) 180 0
     = Inr (True, 0)
   \<and> check_location_match (PredictionValidator_init 24 30 50)
        ((sample_prediction 86400)\<lparr>sky_location := None\<rparr>) 10 20
     = Inr (True, 0)"
  using check_location_match_spec
          [of "sample_prediction 86400" "PredictionValidator_init 24 30 50" 180 0]
        check_location_match_spec
          [of "(sample_prediction 86400)\<lparr>sky_location := None\<rparr>"
              "PredictionValidator_init 24 30 50" 10 20]
  by (simp add: sample_prediction_def PredictionValidator_init_def)

text \<open>
  Claim C5. A predicted frequency of exactly 0 gives a non-match with the infinite
  distance, and no call ends in a division by zero. For a positive predicted frequency the
  event matches exactly when \<open>|observed - predicted| / predicted\<close> is at most the
  tolerance fraction, and the distance reported is that quotient times 100. Without wave
  parameters the check matches with distance 0.
\<close>

theorem check_frequency_match_spec:
  "(\<forall>w. wave_parameters p = Some w \<and> frequency_hz w = 0 \<longrightarrow>
      check_frequency_match v p f = Inr (False, Infinite))
   \<and> check_frequency_match v p f \<noteq> Inl ZeroDivisionError
   \<and> (\<forall>w. wave_parameters p = Some w \<and> 0 < frequency_hz w \<longrightarrow>
      check_frequency_match v p f
        = Inr (\<bar>f - frequency_hz w\<bar> / frequency_hz w \<le> frequency_tolerance v,
               Finite (\<bar>f - frequency_hz w\<bar> / frequency_hz w * 100)))
   \<and> (wave_parameters p = None \<longrightarrow> check_frequency_match v p f = Inr (True, Finite 0))"
proof -
  have "check_frequency_match v p f \<noteq> Inl ZeroDivisionError"
    using check_frequency_match_total [of v p f] by auto
  then show ?thesis
    by (simp add: check_frequency_match_def float_div_def Let_def)
qed

theorem check_frequency_match_spec_witness:
  "check_frequency_match (PredictionValidator_init 24 30 50) (sample_prediction 86400) 110
     = Inr (True, Finite 10)
   \<and> check_frequency_match (PredictionValidator_init 24 30 50) (sample_prediction 86400) 200
     = Inr (False, Finite 100)
   \<and> check_frequency_match (PredictionValidator_init 24 30 50)
        ((sample_prediction 86400)
           \<lparr>wave_parameters :=
              Some \<lparr>frequency_hz = 0, amplitude = 1, chirp_mass = None, distance_mpc = None,
                    snr = None\<rparr>\<rparr>) 110
     = Inr (False, Infinite)
   \<and> check_frequency_match (PredictionValidator_init 24 30 50)
        ((sample_prediction 86400)\<lparr>wave_parameters := None\<rparr>) 110
     = Inr (True, Finite 0)"
  using check_frequency_match_spec
          [of "sample_prediction 86400" "PredictionValidator_init 24 30 50" 110]
        check_frequency_match_spec
          [of "sample_prediction 86400" "PredictionValidator_init 24 30 50" 200]
        check_frequency_match_spec
          [of "(sample_prediction 86400)
                 \<lparr>wave_parameters :=
                    Some \<lparr>frequency_hz = 0, amplitude = 1, chirp_mass = None,
                          distance_mpc = None, snr = None\<rparr>\<rparr>"
              "PredictionValidator_init 24 30 50" 110]
        check_frequency_match_spec
          [of "(sample_prediction 86400)\<lparr>wave_parameters := None\<rparr>"
              "PredictionValidator_init 24 30 50" 110]
  by (simp add: sample_prediction_def PredictionValidator_init_def)


text \<open>
  Claim C6. \<open>validate_against_event\<close> always returns a result. The time axis is always
  evaluated, the sky axis exactly when both event coordinates are supplied, the frequency
  axis exactly when the event frequency is supplied. The overall match is the conjunction
  of the matches of the axes evaluated, and the score is the arithmetic mean, over those
  axes, of \<open>max(0, 1 - hours/48)\<close>, \<open>max(0, 1 - degrees/90)\<close> and
  \<open>max(0, 1 - percent/100)\<close> (which is 0 for the infinite distance).
\<close>

theorem validate_against_event_spec:
  "\<exists>r. validate_against_event v p t ra dec fr = Inr r
     \<and> time_check (checks r) = Some (check_time_match v p t)
     \<and> (location_check (checks r) \<noteq> None \<longleftrightarrow> ra \<noteq> None \<and> dec \<noteq> None)
     \<and> (\<forall>a d. ra = Some a \<and> dec = Some d \<longrightarrow>
           map_option Inr (location_check (checks r)) = Some (check_location_match v p a d))
     \<and> (frequency_check (checks r) \<noteq> None \<longleftrightarrow> fr \<noteq> None)
     \<and> (\<forall>f. fr = Some f \<longrightarrow>
           map_option Inr (frequency_check (checks r)) = Some (check_frequency_match v p f))
     \<and> overall_match r
         = (fst (check_time_match v p t)
            \<and> (\<forall>x. location_check (checks r) = Some x \<longrightarrow> fst x)
            \<and> (\<forall>y. frequency_check (checks r) = Some y \<longrightarrow> fst y))
     \<and> match_score r
         = (max 0 (1 - snd (check_time_match v p t) / 48)
            + (case location_check (checks r) of
                 None \<Rightarrow> 0 | Some x \<Rightarrow> max 0 (1 - snd x / 90))
            + (case frequency_check (checks r) of
                 None \<Rightarrow> 0
               | Some y \<Rightarrow> (case snd y of Finite d \<Rightarrow> max 0 (1 - d / 100) | Infinite \<Rightarrow> 0)))
           / (1 + (if location_check (checks r) = None then 0 else 1)
                + (if frequency_check (checks r) = None then 0 else 1))"
proof -
  obtain tm td where T: "check_time_match v p t = (tm, td)"
    by (cases "check_time_match v p t")
  have L: "\<And>a d. \<exists>lm ld. check_location_match v p a d = Inr (lm, ld)"
    using check_location_match_total by (metis surj_pair)
  have F: "\<And>f. \<exists>fm fd. check_frequency_match v p f = Inr (fm, fd)"
    using check_frequency_match_total by (metis surj_pair)
  show ?thesis
  proof (cases ra)
    case None
    show ?thesis
    proof (cases fr)
      case None
      with \<open>ra = None\<close> T show ?thesis
        by (auto simp: validate_against_event_def time_step_def location_step_def
              frequency_step_def score_step_def Let_def)
    next
      case (Some f)
      obtain fm fd where "check_frequency_match v p f = Inr (fm, fd)" using F by blast
      with Some \<open>ra = None\<close> T show ?thesis
        by (cases fd)
           (auto simp: validate_against_event_def time_step_def location_step_def
              frequency_step_def score_step_def Let_def)
    qed
  next
    case (Some a)
    note ra = Some
    show ?thesis
    proof (cases dec)
      case None
      note dec = None
      show ?thesis
      proof (cases fr)
        case None
        with ra dec T show ?thesis
          by (auto simp: validate_against_event_def time_step_def location_step_def
                frequency_step_def score_step_def Let_def)
      next
        case (Some f)
        obtain fm fd where "check_frequency_match v p f = Inr (fm, fd)" using F by blast
        with Some ra dec T show ?thesis
          by (cases fd)
             (auto simp: validate_against_event_def time_step_def location_step_def
                frequency_step_def score_step_def Let_def)
      qed
    next
      case (Some d)
      note dec = Some
      obtain lm ld where l: "check_location_match v p a d = Inr (lm, ld)" using L by blast
      show ?thesis
      proof (cases fr)
        case None
        with ra dec T l show ?thesis
          by (auto simp: validate_against_event_def time_step_def location_step_def
                frequency_step_def score_step_def Let_def)
      next
        case (Some f)
        obtain fm fd where "check_frequency_match v p f = Inr (fm, fd)" using F by blast
        with Some ra dec T l show ?thesis
          by (cases fd)
             (auto simp: validate_against_event_def time_step_def location_step_def
                frequency_step_def score_step_def Let_def)
      qed
    qed
  qed
qed


theorem validate_against_event_spec_witness:
  "\<exists>r. validate_against_event (PredictionValidator_init 24 30 50) (sample_prediction 86400)
          108000 (Some 180) (Some 0) (Some 105) = Inr r
     \<and> overall_match r \<and> match_score r = 113 / 120"
proof -
  let ?v = "PredictionValidator_init 24 30 50"
  let ?p = "sample_prediction 86400"
  have t: "check_time_match ?v ?p 108000 = (True, 6)"
    by (simp add: check_time_match_def is_within_window_def time_window_hours_def
          sample_prediction_def timedelta_hours_def total_seconds_def)
  have l: "check_location_match ?v ?p 180 0 = Inr (True, 0)"
    by (simp add: check_location_match_Some
          [of _ "\<lparr>right_ascension = 180, declination = 0, uncertainty_radius = 0\<rparr>"]
          sample_prediction_def PredictionValidator_init_def haversine_a_def math_degrees_def)
  have f: "check_frequency_match ?v ?p 105 = Inr (True, Finite 5)"
    by (simp add: check_frequency_match_def float_div_def sample_prediction_def
          PredictionValidator_init_def)
  from validate_against_event_spec [of ?v ?p 108000 "Some 180" "Some 0" "Some 105"]
  obtain r where r: "validate_against_event ?v ?p 108000 (Some 180) (Some 0) (Some 105) = Inr r"
    and lc: "map_option Inr (location_check (checks r)) = Some (check_location_match ?v ?p 180 0)"
    and fc: "map_option Inr (frequency_check (checks r)) = Some (check_frequency_match ?v ?p 105)"
    and om: "overall_match r
         = (fst (check_time_match ?v ?p 108000)
            \<and> (\<forall>x. location_check (checks r) = Some x \<longrightarrow> fst x)
            \<and> (\<forall>y. frequency_check (checks r) = Some y \<longrightarrow> fst y))"
    and ms: "match_score r
         = (max 0 (1 - snd (check_time_match ?v ?p 108000) / 48)
            + (case location_check (checks r) of
                 None \<Rightarrow> 0 | Some x \<Rightarrow> max 0 (1 - snd x / 90))
            + (case frequency_check (checks r) of
                 None \<Rightarrow> 0
               | Some y \<Rightarrow> (case snd y of Finite d \<Rightarrow> max 0 (1 - d / 100) | Infinite \<Rightarrow> 0)))
           / (1 + (if location_check (checks r) = None then 0 else 1)
                + (if frequency_check (checks r) = None then 0 else 1))"
    by auto
  from lc l have lc': "location_check (checks r) = Some (True, 0)" by auto
  from fc f have fc': "frequency_check (checks r) = Some (True, Finite 5)" by auto
  have "overall_match r" using om t lc' fc' by simp
  moreover have "match_score r = 113 / 120" using ms t lc' fc' by simp
  ultimately show ?thesis using r by blast
qed

lemma type_value_inj: "type_value a = type_value b \<longleftrightarrow> a = b"
  by (cases a; cases b) simp_all

text \<open>
  Claim C1. The digest is the hash of the serialised dictionary \<open>hashable_data\<close>, whatever
  the three library functions are. \<open>mark_validated\<close> and \<open>mark_invalidated\<close> leave it
  unchanged. The dictionary is determined by, and determines, exactly the content fields:
  id, category, the ISO forms of the creation time and of the two window bounds,
  framework, confidence, description and, when present, right ascension and declination,
  frequency and amplitude. So two predictions that differ in one of these are hashed from
  different dictionaries.
\<close>

theorem compute_prediction_hash_spec:
  "compute_prediction_hash isoformat dumps sha256 (mark_validated p event_id)
     = compute_prediction_hash isoformat dumps sha256 p
   \<and> compute_prediction_hash isoformat dumps sha256 (mark_invalidated p)
     = compute_prediction_hash isoformat dumps sha256 p
   \<and> compute_prediction_hash isoformat dumps sha256 p
     = sha256 (dumps (JObject (hashable_data isoformat p)))
   \<and> (hashable_data isoformat p = hashable_data isoformat q \<longleftrightarrow>
        id' p = id' q \<and> prediction_type p = prediction_type q
        \<and> isoformat (created_at p) = isoformat (created_at q)
        \<and> isoformat (predicted_event_start p) = isoformat (predicted_event_start q)
        \<and> isoformat (predicted_event_end p) = isoformat (predicted_event_end q)
        \<and> framework p = framework q \<and> confidence p = confidence q
        \<and> description p = description q
        \<and> map_option (\<lambda>s. (right_ascension s, declination s)) (sky_location p)
            = map_option (\<lambda>s. (right_ascension s, declination s)) (sky_location q)
        \<and> map_option (\<lambda>w. (frequency_hz w, amplitude w)) (wave_parameters p)
            = map_option (\<lambda>w. (frequency_hz w, amplitude w)) (wave_parameters q))"
proof (intro conjI)
  show "compute_prediction_hash isoformat dumps sha256 (mark_validated p event_id)
     = compute_prediction_hash isoformat dumps sha256 p"
    by (simp add: compute_prediction_hash_def hashable_data_def mark_validated_def)
  show "compute_prediction_hash isoformat dumps sha256 (mark_invalidated p)
     = compute_prediction_hash isoformat dumps sha256 p"
    by (simp add: compute_prediction_hash_def hashable_data_def mark_invalidated_def)
  show "compute_prediction_hash isoformat dumps sha256 p
     = sha256 (dumps (JObject (hashable_data isoformat p)))"
    by (simp add: compute_prediction_hash_def compute_hash_def)
  show "hashable_data isoformat p = hashable_data isoformat q \<longleftrightarrow>
        id' p = id' q \<and> prediction_type p = prediction_type q
        \<and> isoformat (created_at p) = isoformat (created_at q)
        \<and> isoformat (predicted_event_start p) = isoformat (predicted_event_start q)
        \<and> isoformat (predicted_event_end p) = isoformat (predicted_event_end q)
        \<and> framework p = framework q \<and> confidence p = confidence q
        \<and> description p = description q
        \<and> map_option (\<lambda>s. (right_ascension s, declination s)) (sky_location p)
            = map_option (\<lambda>s. (right_ascension s, declination s)) (sky_location q)
        \<and> map_option (\<lambda>w. (frequency_hz w, amplitude w)) (wave_parameters p)
            = map_option (\<lambda>w. (frequency_hz w, amplitude w)) (wave_parameters q)"
    by (cases "sky_location p"; cases "sky_location q"; cases "wave_parameters p";
        cases "wave_parameters q")
       (auto simp: hashable_data_def type_value_inj)
qed

theorem compute_prediction_hash_spec_witness:
  "compute_prediction_hash (\<lambda>t. []) (\<lambda>j. []) (\<lambda>s. s)
      (mark_validated (sample_prediction 86400) ''EVENT-001'')
     = compute_prediction_hash (\<lambda>t. []) (\<lambda>j. []) (\<lambda>s. s) (sample_prediction 86400)
   \<and> hashable_data (\<lambda>t. []) (sample_prediction 86400)
     \<noteq> hashable_data (\<lambda>t. []) ((sample_prediction 86400)\<lparr>confidence := 1 / 2\<rparr>)"
  using compute_prediction_hash_spec
          [of "\<lambda>t. []" "\<lambda>j. []" "\<lambda>s. s" "sample_prediction 86400" "''EVENT-001''"
              "(sample_prediction 86400)\<lparr>confidence := 1 / 2\<rparr>"]
  by (simp add: sample_prediction_def)


subsection \<open>Evaluating the parser\<close>

text \<open>\<open>str.lower\<close> on the line feed and the printable ASCII characters.\<close>

lemma lower_char_ascii:
  "lower_char (CHR 0x0A) = CHR 0x0A" "lower_char (CHR 0x20) = CHR 0x20"
  "lower_char (CHR 0x21) = CHR 0x21" "lower_char (CHR 0x22) = CHR 0x22"
  "lower_char (CHR 0x23) = CHR 0x23" "lower_char (CHR 0x24) = CHR 0x24"
  "lower_char (CHR 0x25) = CHR 0x25" "lower_char (CHR 0x26) = CHR 0x26"
  "lower_char (CHR 0x27) = CHR 0x27" "lower_char (CHR 0x28) = CHR 0x28"
  "lower_char (CHR 0x29) = CHR 0x29" "lower_char (CHR 0x2A) = CHR 0x2A"
  "lower_char (CHR 0x2B) = CHR 0x2B" "lower_char (CHR 0x2C) = CHR 0x2C"
  "lower_char (CHR 0x2D) = CHR 0x2D" "lower_char (CHR 0x2E) = CHR 0x2E"
  "lower_char (CHR 0x2F) = CHR 0x2F" "lower_char (CHR 0x30) = CHR 0x30"
  "lower_char (CHR 0x31) = CHR 0x31" "lower_char (CHR 0x32) = CHR 0x32"
  "lower_char (CHR 0x33) = CHR 0x33" "lower_char (CHR 0x34) = CHR 0x34"
  "lower_char (CHR 0x35) = CHR 0x35" "lower_char (CHR 0x36) = CHR 0x36"
  "lower_char (CHR 0x37) = CHR 0x37" "lower_char (CHR 0x38) = CHR 0x38"
  "lower_char (CHR 0x39) = CHR 0x39" "lower_char (CHR 0x3A) = CHR 0x3A"
  "lower_char (CHR 0x3B) = CHR 0x3B" "lower_char (CHR 0x3C) = CHR 0x3C"
  "lower_char (CHR 0x3D) = CHR 0x3D" "lower_char (CHR 0x3E) = CHR 0x3E"
  "lower_char (CHR 0x3F) = CHR 0x3F" "lower_char (CHR 0x40) = CHR 0x40"
  "lower_char (CHR 0x41) = CHR 0x61" "lower_char (CHR 0x42) = CHR 0x62"
  "lower_char (CHR 0x43) = CHR 0x63" "lower_char (CHR 0x44) = CHR 0x64"
  "lower_char (CHR 0x45) = CHR 0x65" "lower_char (CHR 0x46) = CHR 0x66"
  "lower_char (CHR 0x47) = CHR 0x67" "lower_char (CHR 0x48) = CHR 0x68"
  "lower_char (CHR 0x49) = CHR 0x69" "lower_char (CHR 0x4A) = CHR 0x6A"
  "lower_char (CHR 0x4B) = CHR 0x6B" "lower_char (CHR 0x4C) = CHR 0x6C"
  "lower_char (CHR 0x4D) = CHR 0x6D" "lower_char (CHR 0x4E) = CHR 0x6E"
  "lower_char (CHR 0x4F) = CHR 0x6F" "lower_char (CHR 0x50) = CHR 0x70"
  "lower_char (CHR 0x51) = CHR 0x71" "lower_char (CHR 0x52) = CHR 0x72"
  "lower_char (CHR 0x53) = CHR 0x73" "lower_char (CHR 0x54) = CHR 0x74"
  "lower_char (CHR 0x55) = CHR 0x75" "lower_char (CHR 0x56) = CHR 0x76"
  "lower_char (CHR 0x57) = CHR 0x77" "lower_char (CHR 0x58) = CHR 0x78"
  "lower_char (CHR 0x59) = CHR 0x79" "lower_char (CHR 0x5A) = CHR 0x7A"
  "lower_char (CHR 0x5B) = CHR 0x5B" "lower_char (CHR 0x5C) = CHR 0x5C"
  "lower_char (CHR 0x5D) = CHR 0x5D" "lower_char (CHR 0x5E) = CHR 0x5E"
  "lower_char (CHR 0x5F) = CHR 0x5F" "lower_char (CHR 0x60) = CHR 0x60"
  "lower_char (CHR 0x61) = CHR 0x61" "lower_char (CHR 0x62) = CHR 0x62"
  "lower_char (CHR 0x63) = CHR 0x63" "lower_char (CHR 0x64) = CHR 0x64"
  "lower_char (CHR 0x65) = CHR 0x65" "lower_char (CHR 0x66) = CHR 0x66"
  "lower_char (CHR 0x67) = CHR 0x67" "lower_char (CHR 0x68) = CHR 0x68"
  "lower_char (CHR 0x69) = CHR 0x69" "lower_char (CHR 0x6A) = CHR 0x6A"
  "lower_char (CHR 0x6B) = CHR 0x6B" "lower_char (CHR 0x6C) = CHR 0x6C"
  "lower_char (CHR 0x6D) = CHR 0x6D" "lower_char (CHR 0x6E) = CHR 0x6E"
  "lower_char (CHR 0x6F) = CHR 0x6F" "lower_char (CHR 0x70) = CHR 0x70"
  "lower_char (CHR 0x71) = CHR 0x71" "lower_char (CHR 0x72) = CHR 0x72"
  "lower_char (CHR 0x73) = CHR 0x73" "lower_char (CHR 0x74) = CHR 0x74"
  "lower_char (CHR 0x75) = CHR 0x75" "lower_char (CHR 0x76) = CHR 0x76"
  "lower_char (CHR 0x77) = CHR 0x77" "lower_char (CHR 0x78) = CHR 0x78"
  "lower_char (CHR 0x79) = CHR 0x79" "lower_char (CHR 0x7A) = CHR 0x7A"
  "lower_char (CHR 0x7B) = CHR 0x7B" "lower_char (CHR 0x7C) = CHR 0x7C"
  "lower_char (CHR 0x7D) = CHR 0x7D" "lower_char (CHR 0x7E) = CHR 0x7E"
  by (simp_all add: lower_char_def ascii_upper_def ascii_lower_def latin1_upper_def
        latin1_lower_def)

lemma upper_experimental: "upper ''experimental'' = ''EXPERIMENTAL''"
  by (simp add: upper_def upper_char_def ascii_upper_def ascii_lower_def)

lemmas char_defs = is_space_def is_digit_def is_ascii_letter_def is_word_def lower_char_ascii
  lower_def strip_def startswith_def

lemmas float_defs = digit_value_def digits_value_def split_sign_def float_mantissa_def
  float_exponent_def py_float_def

lemmas pattern_defs = ci_literal_def colon_or_space_def digit_or_dot_def key_value_def
  alternation_def key_spaced_def amplitude_class_def declination_class_def id_class_def
  id_separator_def framework_pattern_def digits_between_def date_separator_def
  date_pattern_def id_value_def extract_pattern_def truthy_def or_else_def

lemmas date_defs = take_if_def month_ways_def day_ways_def is_leap_def days_in_month_def
  days_before_year_def days_before_month_def ymd2ord_def datetime_ymd_def strptime_def
  parse_date_def parse_event_date_def

lemmas content_defs = TYPE_KEYWORDS_def infer_prediction_type_def safe_float_def
  float_or_default_def try_wave_parameters_def extract_wave_parameters_def
  try_sky_location_def extract_sky_location_def parse_confidence_def
  SkyLocation_post_init_def WaveParameters_post_init_def

lemma py_float_error:
  "py_float s = Inl e \<Longrightarrow> e = ValueError ''could not convert string to float''"
  by (auto simp: py_float_def split: prod.splits option.splits)

lemma float_mantissa_nonneg: "float_mantissa s = Some (m, r) \<Longrightarrow> 0 \<le> m"
  by (auto simp: float_mantissa_def Let_def split: list.splits if_splits)

lemma float_exponent_pos: "float_exponent s = Some e \<Longrightarrow> 0 < e"
  by (auto simp: float_exponent_def split: list.splits if_splits prod.splits)

lemma py_float_nonneg:
  assumes "py_float s = Inr c" and "s \<noteq> []" and "hd s \<noteq> CHR ''-''"
  shows "0 \<le> c"
proof -
  from assms(2,3) have "\<exists>r. split_sign s = (1, r)"
    by (cases s) (simp_all add: split_sign_def)
  then obtain r where r: "split_sign s = (1, r)" ..
  with assms(1) obtain m r1 e where "float_mantissa r = Some (m, r1)"
    and "float_exponent r1 = Some e" and "c = 1 * m * e"
    by (auto simp: py_float_def split: option.splits)
  then show ?thesis
    using float_mantissa_nonneg float_exponent_pos by fastforce
qed

lemma re_search_Some:
  "re_search m s = Some g \<Longrightarrow> \<exists>t r. m t = Some (g, r)"
proof (induction s)
  case Nil
  then show ?case by auto
next
  case (Cons c cs)
  then show ?case by (cases "m (c # cs)") auto
qed

lemma key_value_group:
  "key_value key cls t = Some (g, r) \<Longrightarrow> g \<noteq> [] \<and> list_all cls g"
  by (auto simp: key_value_def Let_def list_all_iff split: option.splits if_splits
      dest: set_takeWhileD)

lemma confidence_group:
  assumes "extract_pattern P_confidence content = Some cs"
  shows "cs \<noteq> []" and "list_all digit_or_dot cs"
proof -
  from assms obtain t r where "key_value (ci_literal ''confidence'') digit_or_dot t = Some (cs, r)"
    unfolding extract_pattern_def by (auto dest: re_search_Some)
  then show "cs \<noteq> []" and "list_all digit_or_dot cs"
    by (auto dest: key_value_group)
qed

lemma parse_confidence_value:
  assumes "extract_pattern P_confidence content = Some cs" and "py_float cs = Inr c"
  shows "0 \<le> c"
    and "parse_confidence content = Inr (if c / 100 > 1 then c / 100 / 100 else c / 100)"
proof -
  have ne: "cs \<noteq> []" and all: "list_all digit_or_dot cs"
    using confidence_group [OF assms(1)] by auto
  then have "hd cs \<noteq> CHR ''-''"
    by (cases cs) (auto simp: digit_or_dot_def is_digit_def)
  with assms(2) ne show "0 \<le> c" by (rule py_float_nonneg)
  show "parse_confidence content = Inr (if c / 100 > 1 then c / 100 / 100 else c / 100)"
    using assms ne by (simp add: parse_confidence_def truthy_def float_or_default_def)
qed

lemma parse_content_fields:
  assumes "parse_content env content src = Inr p"
  shows "\<exists>c0. parse_confidence content = Inr c0 \<and> confidence p = min (max c0 0) 1"
    and "predicted_event_start p = parse_event_date (now env) content"
    and "predicted_event_end p = predicted_event_start p + 86400"
    and "sky_location p = extract_sky_location content"
    and "prediction_type p = infer_prediction_type content"
    and "wave_parameters p =
           (if infer_prediction_type content = GRAVITATIONAL_WAVE
            then extract_wave_parameters content else None)"
    and "status p = PENDING"
  using assms
  by (auto simp: parse_content_def Let_def Prediction_post_init_def datetime_add_def
        timedelta_hours_def split: if_splits sum.splits)


lemma digit_or_dot_not_separator: "digit_or_dot c \<Longrightarrow> \<not> colon_or_space c"
  by (auto simp: digit_or_dot_def colon_or_space_def is_digit_def is_space_def)

lemma confidence_key:
  "ci_literal ''confidence'' (''Confidence: '' @ x) = Some ('': '' @ x)"
  by (simp add: ci_literal_def lower_def lower_char_ascii)

lemma separators_colon_space:
  assumes "\<not> colon_or_space d"
  shows "takeWhile colon_or_space ('': '' @ d # x) = '': ''"
    and "dropWhile colon_or_space ('': '' @ d # x) = d # x"
  using assms by (simp_all add: colon_or_space_def is_space_def)

lemma confidence_written:
  assumes "ds \<noteq> []" and "list_all digit_or_dot ds"
  shows "extract_pattern P_confidence (''Confidence: '' @ ds @ ''%'' @ rest) = Some ds"
proof -
  from assms obtain d ds' where ds: "ds = d # ds'" and d: "digit_or_dot d"
    by (cases ds) auto
  have g: "takeWhile digit_or_dot (ds @ ''%'' @ rest) = ds"
    using assms(2) by (simp add: takeWhile_append2 list_all_iff digit_or_dot_def is_digit_def)
  have "key_value (ci_literal ''confidence'') digit_or_dot (''Confidence: '' @ ds @ ''%'' @ rest)
          = Some (ds, dropWhile digit_or_dot (ds @ ''%'' @ rest))"
    unfolding key_value_def confidence_key
    using separators_colon_space [OF digit_or_dot_not_separator [OF d], of "ds' @ ''%'' @ rest"]
      g assms(1)
    by (simp add: ds Let_def)
  then have "PATTERNS P_confidence (''Confidence: '' @ ds @ ''%'' @ rest)
          = Some (ds, dropWhile digit_or_dot (ds @ ''%'' @ rest))" by simp
  then show ?thesis
    unfolding extract_pattern_def by (simp del: PATTERNS.simps)
qed

subsection \<open>The text \<open>Confidence: 150%\<close>\<close>

lemma conf150_strip: "strip ''Confidence: 150%'' \<noteq> []"
  by (simp add: char_defs)

lemma conf150_id: "extract_pattern P_prediction_id ''Confidence: 150%'' = Some ''ence''"
  by (simp add: char_defs pattern_defs)

lemma conf150_framework: "extract_pattern P_framework ''Confidence: 150%'' = None"
  by (simp add: char_defs pattern_defs)

lemma conf150_token: "extract_pattern P_confidence ''Confidence: 150%'' = Some ''150''"
  by (simp add: char_defs pattern_defs)

lemma float_150: "py_float ''150'' = Inr 150"
  by (simp add: float_defs char_defs)

lemma conf150_confidence: "parse_confidence ''Confidence: 150%'' = Inr (15 / 1000)"
  using parse_confidence_value(2) [OF conf150_token float_150] by simp

lemma conf150_date: "parse_event_date now0 ''Confidence: 150%'' = now0"
  by (simp add: parse_event_date_def char_defs pattern_defs)

lemma conf150_result:
  "parse_content test_environment ''Confidence: 150%'' ''unknown'' =
     Inr \<lparr>id' = ''ence'', prediction_type = infer_prediction_type ''Confidence: 150%'',
          created_at = 739403 * 86400, predicted_event_start = 739403 * 86400,
          predicted_event_end = 739404 * 86400, framework = ''Experimental'',
          confidence = 15 / 1000,
          description = extract_description ''Confidence: 150%'',
          sky_location = extract_sky_location ''Confidence: 150%'',
          wave_parameters =
            (if infer_prediction_type ''Confidence: 150%'' = GRAVITATIONAL_WAVE
             then extract_wave_parameters ''Confidence: 150%'' else None),
          status = PENDING, sha256_hash = None, matched_event_id = None,
          tags = extract_tags remdups ''Confidence: 150%''\<rparr>"
  by (simp add: parse_content_def conf150_strip conf150_id conf150_framework
        conf150_confidence conf150_date or_else_def datetime_add_def timedelta_hours_def
        Prediction_post_init_def valid_frameworks_def test_environment_def Let_def)


lemma conf150_projections:
  "\<not> isl (parse_content test_environment ''Confidence: 150%'' ''unknown'')"
  "confidence (projr (parse_content test_environment ''Confidence: 150%'' ''unknown'')) = 15 / 1000"
  by (simp_all add: conf150_result)

subsection \<open>The text \<open>Confidence: 85%\<close>\<close>

lemma conf85_strip: "strip ''Confidence: 85%'' \<noteq> []"
  by (simp add: char_defs)

lemma conf85_id: "extract_pattern P_prediction_id ''Confidence: 85%'' = Some ''ence''"
  by (simp add: char_defs pattern_defs)

lemma conf85_framework: "extract_pattern P_framework ''Confidence: 85%'' = None"
  by (simp add: char_defs pattern_defs)

lemma float_85: "py_float ''85'' = Inr 85"
  by (simp add: float_defs char_defs)

lemma conf85_date: "parse_event_date now0 ''Confidence: 85%'' = now0"
  by (simp add: parse_event_date_def char_defs pattern_defs)

lemma conf85_result:
  "\<not> isl (parse_content test_environment ''Confidence: 85%'' ''unknown'')"
  using parse_confidence_value(2) [OF confidence_written [of "''85''" "[]"] float_85]
  by (simp add: parse_content_def conf85_strip conf85_id conf85_framework
        conf85_date or_else_def datetime_add_def timedelta_hours_def
        Prediction_post_init_def valid_frameworks_def test_environment_def Let_def
        digit_or_dot_def is_digit_def)

text \<open>
  Claim C2, as the code has it. A confidence written \<open>Confidence: c%\<close> at the start of
  the text is the token the parser reads. When the parser returns a prediction and the
  token it read denotes \<open>c\<close>, the stored confidence is \<open>c/100\<close> for \<open>c \<le> 100\<close>,
  and for \<open>c > 100\<close> it is \<open>c/10000\<close> (the quotient is divided by 100 a second
  time), capped at 1.
\<close>

theorem parse_content_confidence:
  "(\<forall>ds rest. ds \<noteq> [] \<and> list_all digit_or_dot ds \<longrightarrow>
      extract_pattern P_confidence (''Confidence: '' @ ds @ ''%'' @ rest) = Some ds)
   \<and> (\<forall>p cs c. parse_content env content src = Inr p
          \<and> extract_pattern P_confidence content = Some cs \<and> py_float cs = Inr c \<longrightarrow>
        0 \<le> c \<and> confidence p = (if c \<le> 100 then c / 100 else min (c / 10000) 1))"
proof -
  have written: "\<forall>ds rest. ds \<noteq> [] \<and> list_all digit_or_dot ds \<longrightarrow>
      extract_pattern P_confidence (''Confidence: '' @ ds @ ''%'' @ rest) = Some ds"
    using confidence_written by blast
  have stored: "0 \<le> c \<and> confidence p = (if c \<le> 100 then c / 100 else min (c / 10000) 1)"
    if a: "parse_content env content src = Inr p
          \<and> extract_pattern P_confidence content = Some cs \<and> py_float cs = Inr c"
    for p cs c
  proof -
    from a have c: "0 \<le> c"
      and pc: "parse_confidence content = Inr (if c / 100 > 1 then c / 100 / 100 else c / 100)"
      using parse_confidence_value by blast+
    from a obtain c0 where "parse_confidence content = Inr c0"
      and "confidence p = min (max c0 0) 1"
      using parse_content_fields(1) by blast
    with pc have "confidence p
        = min (max (if c / 100 > 1 then c / 100 / 100 else c / 100) 0) 1" by simp
    with c have "confidence p = (if c \<le> 100 then c / 100 else min (c / 10000) 1)"
      by (auto simp: min_def max_def)
    with c show ?thesis by simp
  qed
  from written stored show ?thesis by blast
qed

theorem parse_content_confidence_witness:
  "extract_pattern P_confidence ''Confidence: 150% or so'' = Some ''150''
   \<and> confidence (projr (parse_content test_environment ''Confidence: 150%'' ''unknown''))
       = 15 / 1000
   \<and> confidence (projr (parse_content test_environment ''Confidence: 85%'' ''unknown''))
       = 85 / 100"
proof -
  have "\<forall>ds rest. ds \<noteq> [] \<and> list_all digit_or_dot ds \<longrightarrow>
      extract_pattern P_confidence (''Confidence: '' @ ds @ ''%'' @ rest) = Some ds"
    using parse_content_confidence [of test_environment "''Confidence: 150%''" "''unknown''"]
    by (rule conjunct1)
  then have "''150'' \<noteq> [] \<and> list_all digit_or_dot ''150'' \<longrightarrow>
      extract_pattern P_confidence (''Confidence: '' @ ''150'' @ ''%'' @ '' or so'') = Some ''150''"
    by blast
  then have 1: "extract_pattern P_confidence ''Confidence: 150% or so'' = Some ''150''"
    by (simp add: digit_or_dot_def is_digit_def)
  obtain p150 where p150: "parse_content test_environment ''Confidence: 150%'' ''unknown'' = Inr p150"
    using conf150_projections(1) by (cases "parse_content test_environment ''Confidence: 150%'' ''unknown''") auto
  have 2: "confidence p150 = 15 / 1000"
    using parse_content_confidence [of test_environment "''Confidence: 150%''" "''unknown''"]
      p150 conf150_token float_150 by auto
  obtain p85 where p85: "parse_content test_environment ''Confidence: 85%'' ''unknown'' = Inr p85"
    using conf85_result by (cases "parse_content test_environment ''Confidence: 85%'' ''unknown''") auto
  have 3: "confidence p85 = 85 / 100"
    using parse_content_confidence [of test_environment "''Confidence: 85%''" "''unknown''"]
      p85 confidence_written [of "''85''" "[]"] float_85
    by (auto simp: digit_or_dot_def is_digit_def)
  show ?thesis using 1 2 3 p150 p85 by simp
qed

text \<open>
  The claim as the specification states it fails: on \<open>Confidence: 150%\<close> the parser
  returns a prediction whose confidence is 0.015, where \<open>clamp(150/100, 0, 1)\<close> is 1.
\<close>

theorem confidence_150_counterexample:
  "\<not> isl (parse_content test_environment ''Confidence: 150%'' ''unknown'')
   \<and> confidence (projr (parse_content test_environment ''Confidence: 150%'' ''unknown''))
       = 15 / 1000
   \<and> confidence (projr (parse_content test_environment ''Confidence: 150%'' ''unknown''))
       \<noteq> min (max (150 / 100) 0) 1"
  by (simp add: conf150_projections)


subsection \<open>Category inference\<close>

lemma startswith_iff: "startswith s k \<longleftrightarrow> (\<exists>post. s = k @ post)"
proof
  assume "startswith s k"
  then have "s = k @ drop (length k) s"
    unfolding startswith_def by (metis append_take_drop_id)
  then show "\<exists>post. s = k @ post" ..
next
  assume "\<exists>post. s = k @ post"
  then show "startswith s k" by (auto simp: startswith_def)
qed

lemma contains_iff: "contains s k \<longleftrightarrow> (\<exists>pre post. s = pre @ k @ post)"
proof (induction s)
  case Nil
  then show ?case by auto
next
  case (Cons c cs)
  show ?case
  proof
    assume "contains (c # cs) k"
    then consider "startswith (c # cs) k" | "contains cs k" by auto
    then show "\<exists>pre post. c # cs = pre @ k @ post"
    proof cases
      case 1
      then obtain post where "c # cs = [] @ k @ post" by (auto simp: startswith_iff)
      then show ?thesis by blast
    next
      case 2
      then obtain pre post where "cs = pre @ k @ post" using Cons.IH by blast
      then have "c # cs = (c # pre) @ k @ post" by simp
      then show ?thesis by blast
    qed
  next
    assume "\<exists>pre post. c # cs = pre @ k @ post"
    then obtain pre post where e: "c # cs = pre @ k @ post" by blast
    show "contains (c # cs) k"
    proof (cases pre)
      case Nil
      with e have "startswith (c # cs) k" by (auto simp: startswith_iff)
      then show ?thesis by simp
    next
      case (Cons a pre')
      with e have "cs = pre' @ k @ post" by simp
      then have "contains cs k" using Cons.IH by blast
      then show ?thesis by simp
    qed
  qed
qed

lemma infer_loop_first:
  assumes "i < length tbl"
    and "\<exists>k \<in> set (snd (tbl ! i)). contains s k"
    and "\<forall>j < i. \<forall>k \<in> set (snd (tbl ! j)). \<not> contains s k"
  shows "infer_loop tbl s = fst (tbl ! i)"
  using assms
proof (induction tbl arbitrary: i)
  case Nil
  then show ?case by simp
next
  case (Cons row tbl)
  obtain t ks where row: "row = (t, ks)" by (cases row)
  show ?case
  proof (cases i)
    case 0
    with Cons.prems row show ?thesis by (auto simp: list_ex_iff)
  next
    case (Suc n)
    with Cons.prems have "\<forall>k \<in> set ks. \<not> contains s k"
      using row by (metis nth_Cons_0 snd_conv zero_less_Suc)
    moreover have "infer_loop tbl s = fst (tbl ! n)"
    proof (rule Cons.IH)
      show "n < length tbl" using Cons.prems(1) Suc by simp
      show "\<exists>k \<in> set (snd (tbl ! n)). contains s k" using Cons.prems(2) Suc by simp
      show "\<forall>j < n. \<forall>k \<in> set (snd (tbl ! j)). \<not> contains s k"
      proof (intro allI impI)
        fix j assume "j < n"
        then have "Suc j < i" using Suc by simp
        then have "\<forall>k \<in> set (snd ((row # tbl) ! Suc j)). \<not> contains s k"
          using Cons.prems(3) by blast
        then show "\<forall>k \<in> set (snd (tbl ! j)). \<not> contains s k" by simp
      qed
    qed
    ultimately show ?thesis using row Suc by (simp add: list_ex_iff)
  qed
qed

lemma infer_loop_default:
  assumes "\<forall>i < length tbl. \<forall>k \<in> set (snd (tbl ! i)). \<not> contains s k"
  shows "infer_loop tbl s = GRAVITATIONAL_WAVE"
  using assms
proof (induction tbl)
  case Nil
  then show ?case by simp
next
  case (Cons row tbl)
  obtain t ks where row: "row = (t, ks)" by (cases row)
  from Cons.prems have "\<forall>k \<in> set ks. \<not> contains s k"
    using row by (metis length_greater_0_conv list.discI nth_Cons_0 snd_conv)
  moreover have "infer_loop tbl s = GRAVITATIONAL_WAVE"
  proof (rule Cons.IH, intro allI impI)
    fix i assume "i < length tbl"
    then have "Suc i < length (row # tbl)" by simp
    then have "\<forall>k \<in> set (snd ((row # tbl) ! Suc i)). \<not> contains s k"
      using Cons.prems by blast
    then show "\<forall>k \<in> set (snd (tbl ! i)). \<not> contains s k" by simp
  qed
  ultimately show ?case using row by (simp add: list_ex_iff)
qed

text \<open>
  Claim C9. The category is that of the first row of the keyword table, in the order
  wave-burst, gamma-burst, flare, seismic, compact-collapse, tidal-wave, one of whose
  keywords occurs in the lower-cased text; a row is not preferred for having more
  keywords in the text. When no keyword of any row occurs, the category is wave-burst.
  \<open>contains s k\<close> is the substring test.
\<close>

theorem infer_prediction_type_spec:
  "(\<forall>i < length TYPE_KEYWORDS.
      (\<exists>k \<in> set (snd (TYPE_KEYWORDS ! i)). contains (lower content) k)
      \<and> (\<forall>j < i. \<forall>k \<in> set (snd (TYPE_KEYWORDS ! j)). \<not> contains (lower content) k)
      \<longrightarrow> infer_prediction_type content = fst (TYPE_KEYWORDS ! i))
   \<and> ((\<forall>i < length TYPE_KEYWORDS.
          \<forall>k \<in> set (snd (TYPE_KEYWORDS ! i)). \<not> contains (lower content) k)
      \<longrightarrow> infer_prediction_type content = GRAVITATIONAL_WAVE)
   \<and> map fst TYPE_KEYWORDS
       = [GRAVITATIONAL_WAVE, GAMMA_RAY, SOLAR_FLARE, TECTONIC, BLACK_HOLE, TSUNAMI]
   \<and> (\<forall>s k. contains s k \<longleftrightarrow> (\<exists>pre post. s = pre @ k @ post))"
proof (intro conjI allI impI)
  fix i
  assume "i < length TYPE_KEYWORDS"
    and "(\<exists>k \<in> set (snd (TYPE_KEYWORDS ! i)). contains (lower content) k)
      \<and> (\<forall>j < i. \<forall>k \<in> set (snd (TYPE_KEYWORDS ! j)). \<not> contains (lower content) k)"
  then show "infer_prediction_type content = fst (TYPE_KEYWORDS ! i)"
    unfolding infer_prediction_type_def by (intro infer_loop_first) auto
next
  assume "\<forall>i < length TYPE_KEYWORDS.
          \<forall>k \<in> set (snd (TYPE_KEYWORDS ! i)). \<not> contains (lower content) k"
  then show "infer_prediction_type content = GRAVITATIONAL_WAVE"
    unfolding infer_prediction_type_def by (rule infer_loop_default)
next
  show "map fst TYPE_KEYWORDS
       = [GRAVITATIONAL_WAVE, GAMMA_RAY, SOLAR_FLARE, TECTONIC, BLACK_HOLE, TSUNAMI]"
    by (simp add: TYPE_KEYWORDS_def)
next
  fix s k
  show "contains s k \<longleftrightarrow> (\<exists>pre post. s = pre @ k @ post)" by (rule contains_iff)
qed


theorem infer_prediction_type_spec_witness:
  "infer_prediction_type ''Sun flare CME gw'' = GRAVITATIONAL_WAVE
   \<and> infer_prediction_type ''A Solar Flare'' = SOLAR_FLARE
   \<and> infer_prediction_type ''nothing'' = GRAVITATIONAL_WAVE"
proof -
  have l1: "lower ''Sun flare CME gw'' = ''sun flare cme gw''"
    and l2: "lower ''A Solar Flare'' = ''a solar flare''"
    and l3: "lower ''nothing'' = ''nothing''"
    by (simp_all add: lower_def lower_char_ascii)
  have 1: "infer_prediction_type ''Sun flare CME gw'' = fst (TYPE_KEYWORDS ! 0)"
    by (rule infer_prediction_type_spec
          [of "''Sun flare CME gw''", THEN conjunct1, rule_format, of 0])
       (simp_all add: TYPE_KEYWORDS_def l1 startswith_def)
  have 2: "infer_prediction_type ''A Solar Flare'' = fst (TYPE_KEYWORDS ! 2)"
    by (rule infer_prediction_type_spec
          [of "''A Solar Flare''", THEN conjunct1, rule_format, of 2])
       (simp_all add: TYPE_KEYWORDS_def l2 startswith_def numeral_2_eq_2 All_less_Suc)
  have 3: "infer_prediction_type ''nothing'' = GRAVITATIONAL_WAVE"
    by (rule infer_prediction_type_spec
          [of "''nothing''", THEN conjunct2, THEN conjunct1, THEN mp])
       (simp add: TYPE_KEYWORDS_def l3 startswith_def All_less_Suc)
  from 1 2 3 show ?thesis by (simp add: TYPE_KEYWORDS_def)
qed


subsection \<open>The text \<open>framework: experimental\<close>\<close>

lemma fwexp_strip: "strip ''framework: experimental'' \<noteq> []"
  by (simp add: char_defs)

lemma fwexp_id: "extract_pattern P_prediction_id ''framework: experimental'' = None"
  by (simp add: char_defs pattern_defs)

lemma fwexp_framework:
  "extract_pattern P_framework ''framework: experimental'' = Some ''experimental''"
  by (simp add: char_defs pattern_defs)

lemma fwexp_confidence: "parse_confidence ''framework: experimental'' = Inr (1 / 2)"
  by (simp add: parse_confidence_def char_defs pattern_defs)

lemma fwexp_date: "parse_event_date now0 ''framework: experimental'' = now0"
  by (simp add: parse_event_date_def char_defs pattern_defs)

lemma fwexp_result:
  assumes "0 \<le> now env" and "now env < 3652059 * 86400"
  shows "parse_content env ''framework: experimental'' src
           = Inl (ValueError ''Framework must be one of'')"
  using assms
  by (simp add: parse_content_def fwexp_strip fwexp_id fwexp_framework fwexp_confidence
        fwexp_date or_else_def datetime_add_def timedelta_hours_def upper_experimental
        Prediction_post_init_def valid_frameworks_def Let_def)

text \<open>
  Claim C10. The text \<open>framework: experimental\<close> is not empty; the framework pattern
  matches it and captures the label as written; the label differs from
  \<open>Experimental\<close>, so it is upper-cased to \<open>EXPERIMENTAL\<close>, which is not a valid
  framework; and with the clock anywhere before the last day of year 9999,
  \<open>parse_content\<close> raises the construction error of the framework check instead of
  returning a prediction.
\<close>

theorem lowercase_experimental_rejected:
  "strip ''framework: experimental'' \<noteq> []
   \<and> extract_pattern P_framework ''framework: experimental'' = Some ''experimental''
   \<and> ''experimental'' \<noteq> ''Experimental''
   \<and> upper ''experimental'' = ''EXPERIMENTAL''
   \<and> ''EXPERIMENTAL'' \<notin> set valid_frameworks
   \<and> (0 \<le> now env \<and> now env < 3652059 * 86400 \<longrightarrow>
        parse_content env ''framework: experimental'' src
          = Inl (ValueError ''Framework must be one of''))"
  by (simp add: fwexp_strip fwexp_framework upper_experimental valid_frameworks_def
        fwexp_result)

theorem lowercase_experimental_rejected_witness:
  "parse_content test_environment ''framework: experimental'' ''unknown''
     = Inl (ValueError ''Framework must be one of'')"
  using lowercase_experimental_rejected [of test_environment "''unknown''"]
  by (simp add: test_environment_def)

subsection \<open>The text \<open>RA: 400 Dec: 10\<close>\<close>

lemma ra400_strip: "strip ''RA: 400 Dec: 10'' \<noteq> []"
  by (simp add: char_defs)

lemma ra400_id: "extract_pattern P_prediction_id ''RA: 400 Dec: 10'' = None"
  by (simp add: char_defs pattern_defs)

lemma ra400_framework: "extract_pattern P_framework ''RA: 400 Dec: 10'' = None"
  by (simp add: char_defs pattern_defs)

lemma ra400_confidence: "parse_confidence ''RA: 400 Dec: 10'' = Inr (1 / 2)"
  by (simp add: parse_confidence_def char_defs pattern_defs)

lemma ra400_date: "parse_event_date now0 ''RA: 400 Dec: 10'' = now0"
  by (simp add: parse_event_date_def char_defs pattern_defs)

lemma ra400_ra: "extract_pattern P_right_ascension ''RA: 400 Dec: 10'' = Some ''400''"
  by (simp add: char_defs pattern_defs)

lemma ra400_dec: "extract_pattern P_declination ''RA: 400 Dec: 10'' = Some ''10''"
  by (simp add: char_defs pattern_defs)

lemma ra400_try:
  "try_sky_location ''400'' ''10''
     = Inl (ValueError ''Right ascension must be between 0 and 360'')"
  by (simp add: try_sky_location_def SkyLocation_post_init_def float_defs char_defs)

lemma ra400_sky: "extract_sky_location ''RA: 400 Dec: 10'' = None"
  by (simp add: extract_sky_location_def ra400_ra ra400_dec ra400_try truthy_def)

lemma ra400_result:
  "\<not> isl (parse_content test_environment ''RA: 400 Dec: 10'' ''unknown'')"
  "sky_location (projr (parse_content test_environment ''RA: 400 Dec: 10'' ''unknown'')) = None"
  by (simp_all add: parse_content_def ra400_strip ra400_id ra400_framework ra400_confidence
        ra400_date ra400_sky or_else_def datetime_add_def timedelta_hours_def
        Prediction_post_init_def valid_frameworks_def test_environment_def Let_def)


subsection \<open>Errors of \<open>parse_content\<close>\<close>

lemma parse_confidence_error:
  "parse_confidence content = Inl e \<Longrightarrow> e = ValueError ''could not convert string to float''"
  by (auto simp: parse_confidence_def float_or_default_def Let_def
      split: if_splits sum.splits option.splits dest: py_float_error)

lemma parse_content_error:
  assumes "parse_content env content src = Inl e"
  shows "e = ParseError \<or> e = ValueError ''could not convert string to float''
         \<or> e = OverflowError \<or> e = ValueError ''Framework must be one of''"
proof (cases "strip content = []")
  case True
  with assms show ?thesis by (simp add: parse_content_def)
next
  case False
  show ?thesis
  proof (cases "parse_confidence content")
    case (Inl e')
    with assms False have "e = e'" by (simp add: parse_content_def Let_def)
    with Inl show ?thesis by (auto dest: parse_confidence_error)
  next
    case (Inr c0)
    show ?thesis
    proof (cases "datetime_add (parse_event_date (now env) content) (timedelta_hours 24)")
      case (Inl e')
      then have "e' = OverflowError" by (auto simp: datetime_add_def split: if_splits)
      with assms False Inr Inl show ?thesis by (simp add: parse_content_def Let_def)
    next
      case end_ok: (Inr event_end)
      then have "event_end = parse_event_date (now env) content + 86400"
        by (auto simp: datetime_add_def timedelta_hours_def split: if_splits)
      with assms False Inr end_ok show ?thesis
        by (auto simp: parse_content_def Let_def Prediction_post_init_def split: if_splits)
    qed
  qed
qed

lemma py_float_Nil: "py_float [] = Inl (ValueError ''could not convert string to float'')"
  by (simp add: float_defs)

lemma sky_violation_absorbed:
  assumes "extract_pattern P_right_ascension content = Some r"
    and "extract_pattern P_declination content = Some d"
    and "py_float r = Inr x" and "py_float d = Inr y"
    and "\<not> (0 \<le> x \<and> x \<le> 360 \<and> - 90 \<le> y \<and> y \<le> 90)"
  shows "extract_sky_location content = None"
proof -
  have "\<exists>e. try_sky_location r d = Inl e"
    using assms(3-5) by (auto simp: try_sky_location_def SkyLocation_post_init_def)
  then show ?thesis
    using assms(1,2) by (auto simp: extract_sky_location_def Let_def)
qed

lemma frequency_violation_absorbed:
  assumes "extract_pattern P_frequency content = Some f"
    and "py_float f = Inr x" and "x \<le> 0"
  shows "extract_wave_parameters content = None"
proof -
  have "f \<noteq> []" using assms(2) py_float_Nil by auto
  then have "float_or_default (Some f) 100 = Inr x"
    using assms(2) by (simp add: float_or_default_def truthy_def)
  then have "\<exists>e. try_wave_parameters (Some f) a content = Inl e" for a
    using assms(3)
    by (cases "float_or_default a (1 / 10 ^ 21)")
       (auto simp: try_wave_parameters_def WaveParameters_post_init_def)
  then obtain e where
    "try_wave_parameters (Some f) (extract_pattern P_amplitude content) content = Inl e"
    by blast
  then show ?thesis
    using assms(1) by (simp add: extract_wave_parameters_def Let_def)
qed

lemma amplitude_violation_absorbed:
  assumes "extract_pattern P_amplitude content = Some a"
    and "py_float a = Inr y" and "y \<le> 0"
  shows "extract_wave_parameters content = None"
proof -
  have "a \<noteq> []" using assms(2) py_float_Nil by auto
  then have "float_or_default (Some a) (1 / 10 ^ 21) = Inr y"
    using assms(2) by (simp add: float_or_default_def truthy_def)
  then have "\<exists>e. try_wave_parameters f (Some a) content = Inl e" for f
    using assms(3)
    by (cases "float_or_default f 100")
       (auto simp: try_wave_parameters_def WaveParameters_post_init_def)
  then obtain e where
    "try_wave_parameters (extract_pattern P_frequency content) (Some a) content = Inl e"
    by blast
  then show ?thesis
    using assms(1) by (simp add: extract_wave_parameters_def Let_def)
qed

lemma freq0_token: "extract_pattern P_frequency ''Frequency: 0 Hz'' = Some ''0''"
  by (simp add: char_defs pattern_defs)

lemma float_0: "py_float ''0'' = Inr 0"
  by (simp add: float_defs char_defs)

lemma float_400: "py_float ''400'' = Inr 400"
  by (simp add: float_defs char_defs)

lemma float_10: "py_float ''10'' = Inr 10"
  by (simp add: float_defs char_defs)

text \<open>
  Claim C7, as the code has it. The only errors \<open>parse_content\<close> raises are the error
  for empty content, the conversion error of a malformed confidence number, the overflow
  of the window past year 9999 and the error of the framework check. A prediction it
  returns carries the sky location and the wave parameters that the two extraction
  helpers return. When the right ascension and declination read from the text are
  numbers outside their ranges, the helper returns no sky location; when the frequency
  or the amplitude read from the text is a number that is not positive, the helper
  returns no wave parameters. So a violation in a sub-record leaves the field absent and
  raises nothing.
\<close>

theorem sub_record_violations_absorbed:
  "(\<forall>e. parse_content env content src = Inl e \<longrightarrow>
        e = ParseError \<or> e = ValueError ''could not convert string to float''
        \<or> e = OverflowError \<or> e = ValueError ''Framework must be one of'')
   \<and> (\<forall>p. parse_content env content src = Inr p \<longrightarrow>
        sky_location p = extract_sky_location content
        \<and> wave_parameters p =
            (if prediction_type p = GRAVITATIONAL_WAVE
             then extract_wave_parameters content else None))
   \<and> (\<forall>r d x y. extract_pattern P_right_ascension content = Some r
          \<and> extract_pattern P_declination content = Some d
          \<and> py_float r = Inr x \<and> py_float d = Inr y
          \<and> \<not> (0 \<le> x \<and> x \<le> 360 \<and> - 90 \<le> y \<and> y \<le> 90) \<longrightarrow>
        extract_sky_location content = None)
   \<and> (\<forall>f x. extract_pattern P_frequency content = Some f \<and> py_float f = Inr x \<and> x \<le> 0 \<longrightarrow>
        extract_wave_parameters content = None)
   \<and> (\<forall>a y. extract_pattern P_amplitude content = Some a \<and> py_float a = Inr y \<and> y \<le> 0 \<longrightarrow>
        extract_wave_parameters content = None)"
proof (intro conjI allI impI)
  fix e assume "parse_content env content src = Inl e"
  then show "e = ParseError \<or> e = ValueError ''could not convert string to float''
        \<or> e = OverflowError \<or> e = ValueError ''Framework must be one of''"
    by (rule parse_content_error)
next
  fix p assume p: "parse_content env content src = Inr p"
  then show "sky_location p = extract_sky_location content"
    by (rule parse_content_fields(4))
  from p show "wave_parameters p =
            (if prediction_type p = GRAVITATIONAL_WAVE
             then extract_wave_parameters content else None)"
    using parse_content_fields(5,6) by simp
next
  fix r d x y
  assume "extract_pattern P_right_ascension content = Some r
          \<and> extract_pattern P_declination content = Some d
          \<and> py_float r = Inr x \<and> py_float d = Inr y
          \<and> \<not> (0 \<le> x \<and> x \<le> 360 \<and> - 90 \<le> y \<and> y \<le> 90)"
  then show "extract_sky_location content = None"
    using sky_violation_absorbed by blast
next
  fix f x
  assume "extract_pattern P_frequency content = Some f \<and> py_float f = Inr x \<and> x \<le> 0"
  then show "extract_wave_parameters content = None"
    using frequency_violation_absorbed by blast
next
  fix a y
  assume "extract_pattern P_amplitude content = Some a \<and> py_float a = Inr y \<and> y \<le> 0"
  then show "extract_wave_parameters content = None"
    using amplitude_violation_absorbed by blast
qed

theorem sub_record_violations_absorbed_witness:
  "extract_sky_location ''RA: 400 Dec: 10'' = None
   \<and> extract_wave_parameters ''Frequency: 0 Hz'' = None
   \<and> sky_location (projr (parse_content test_environment ''RA: 400 Dec: 10'' ''unknown''))
       = extract_sky_location ''RA: 400 Dec: 10''"
proof -
  note t1 = sub_record_violations_absorbed
              [of test_environment "''RA: 400 Dec: 10''" "''unknown''"]
  note t2 = sub_record_violations_absorbed
              [of test_environment "''Frequency: 0 Hz''" "''unknown''"]
  have 1: "extract_sky_location ''RA: 400 Dec: 10'' = None"
    using t1 ra400_ra ra400_dec float_400 float_10 by auto
  have 2: "extract_wave_parameters ''Frequency: 0 Hz'' = None"
    using t2 freq0_token float_0 by auto
  obtain p where p: "parse_content test_environment ''RA: 400 Dec: 10'' ''unknown'' = Inr p"
    using ra400_result(1)
    by (cases "parse_content test_environment ''RA: 400 Dec: 10'' ''unknown''") auto
  then have "sky_location p = extract_sky_location ''RA: 400 Dec: 10''"
    using t1 by blast
  with p 1 2 show ?thesis by simp
qed

text \<open>
  The claim as the specification states it fails: in \<open>RA: 400 Dec: 10\<close> the right
  ascension read is 400, the construction of the sky location raises the range error,
  and \<open>parse_content\<close> returns a prediction without sky location.
\<close>

theorem sky_violation_counterexample:
  "extract_pattern P_right_ascension ''RA: 400 Dec: 10'' = Some ''400''
   \<and> extract_pattern P_declination ''RA: 400 Dec: 10'' = Some ''10''
   \<and> try_sky_location ''400'' ''10''
       = Inl (ValueError ''Right ascension must be between 0 and 360'')
   \<and> \<not> isl (parse_content test_environment ''RA: 400 Dec: 10'' ''unknown'')
   \<and> sky_location (projr (parse_content test_environment ''RA: 400 Dec: 10'' ''unknown''))
       = None"
  by (simp add: ra400_ra ra400_dec ra400_try ra400_result)


subsection \<open>Dates\<close>

lemma ordinal_2025_01_15: "datetime_ymd 2025 1 15 = Inr (739266 * 86400)"
  by (simp add: date_defs)

lemma iso_findall: "re_findall (PATTERNS P_date) ''Date: 2025-01-15'' = [''25-01-15'']"
  by (simp add: char_defs pattern_defs)

lemma iso_token_unparsed: "parse_date ''25-01-15'' = Inl (ValueError ''Cannot parse date'')"
  by (simp add: date_defs char_defs digits_value_def digit_value_def)

lemma iso_whole_parsed: "parse_date ''2025-01-15'' = datetime_ymd 2025 1 15"
  by (simp add: date_defs char_defs digits_value_def digit_value_def)

lemma iso_event_date: "parse_event_date now0 ''Date: 2025-01-15'' = now0"
  unfolding parse_event_date_def iso_findall by (simp add: iso_token_unparsed)

lemma us_findall: "re_findall (PATTERNS P_date) ''Date: 01/15/2025'' = [''01/15/2025'']"
  by (simp add: char_defs pattern_defs)

lemma us_parsed: "parse_date ''01/15/2025'' = datetime_ymd 2025 1 15"
  by (simp add: date_defs char_defs digits_value_def digit_value_def)

lemma us_event_date: "parse_event_date now0 ''Date: 01/15/2025'' = 739266 * 86400"
  unfolding parse_event_date_def us_findall
  by (simp only: list.case Let_def us_parsed ordinal_2025_01_15 sum.case)

lemma iso_strip: "strip ''Date: 2025-01-15'' \<noteq> []"
  by (simp add: char_defs)

lemma iso_id: "extract_pattern P_prediction_id ''Date: 2025-01-15'' = None"
  by (simp add: char_defs pattern_defs)

lemma iso_framework: "extract_pattern P_framework ''Date: 2025-01-15'' = None"
  by (simp add: char_defs pattern_defs)

lemma iso_confidence: "parse_confidence ''Date: 2025-01-15'' = Inr (1 / 2)"
  by (simp add: parse_confidence_def char_defs pattern_defs)

lemma iso_result:
  "\<not> isl (parse_content test_environment ''Date: 2025-01-15'' ''unknown'')"
  "predicted_event_start (projr (parse_content test_environment ''Date: 2025-01-15'' ''unknown''))
     = 739403 * 86400"
  "predicted_event_end (projr (parse_content test_environment ''Date: 2025-01-15'' ''unknown''))
     = 739404 * 86400"
  by (simp_all add: parse_content_def iso_strip iso_id iso_framework iso_confidence
        iso_event_date or_else_def datetime_add_def timedelta_hours_def
        Prediction_post_init_def valid_frameworks_def test_environment_def Let_def)

text \<open>
  Claim C8 at the text \<open>Date: 2025-01-15\<close>, with the clock at 2025-06-01. The date
  pattern cannot start at a four-digit year: the first token it finds is
  \<open>25-01-15\<close>, which none of the five formats parses, so the event date is the clock
  and the window starts on 2025-06-01 (ordinal 739403), not on 2025-01-15 (ordinal
  739266). The format \<open>%Y-%m-%d\<close> would parse the whole token \<open>2025-01-15\<close>, and
  the same date written \<open>01/15/2025\<close> is read as 2025-01-15.
\<close>

theorem iso_date_not_extracted:
  "re_findall (PATTERNS P_date) ''Date: 2025-01-15'' = [''25-01-15'']
   \<and> parse_date ''25-01-15'' = Inl (ValueError ''Cannot parse date'')
   \<and> parse_event_date (739403 * 86400) ''Date: 2025-01-15'' = 739403 * 86400
   \<and> \<not> isl (parse_content test_environment ''Date: 2025-01-15'' ''unknown'')
   \<and> predicted_event_start
         (projr (parse_content test_environment ''Date: 2025-01-15'' ''unknown''))
       = 739403 * 86400
   \<and> predicted_event_end
         (projr (parse_content test_environment ''Date: 2025-01-15'' ''unknown''))
       = 739404 * 86400
   \<and> parse_date ''2025-01-15'' = Inr (739266 * 86400)
   \<and> parse_event_date (739403 * 86400) ''Date: 01/15/2025'' = 739266 * 86400"
  by (simp only: iso_findall iso_token_unparsed iso_event_date iso_result iso_whole_parsed
        ordinal_2025_01_15 us_event_date simp_thms)

end
